theory Spec2Isabelle
  imports Main "HOL-Library.AList"
begin

section \<open>Python values and exceptions\<close>

text \<open>
  The script \<^verbatim>\<open>sqs.py\<close> is dynamically typed: what it passes around are strings, integers,
  lists, dictionaries with string keys and sets of strings. A set is given by the list of its
  elements in the order in which Python iterates over it.
\<close>

datatype pyval =
    PNone
  | PBool bool
  | PInt int
  | PStr string
  | PList "pyval list"
  | PDict "(string \<times> pyval) list"
  | PSet "string list"

type_synonym pydict = "(string \<times> pyval) list"

text \<open>
  The exceptions that can leave a function of the script: the \<^verbatim>\<open>TypeError\<close> and
  \<^verbatim>\<open>KeyError\<close> of Python itself, and whatever a call of the boto3 client raises, which
  carries the error code of the service.
\<close>

datatype error = TypeError | KeyError string | BotoError string

text \<open>\<^verbatim>\<open>v[k]\<close> for a string key: only a dictionary can be subscripted with a string.\<close>

fun subscript :: "pyval \<Rightarrow> string \<Rightarrow> error + pyval" where
  "subscript (PDict d) k = (case map_of d k of None \<Rightarrow> Inl (KeyError k) | Some v \<Rightarrow> Inr v)"
| "subscript _ k = Inl TypeError"

text \<open>\<^verbatim>\<open>len(v)\<close>.\<close>

fun py_len :: "pyval \<Rightarrow> error + nat" where
  "py_len (PStr s) = Inr (length s)"
| "py_len (PList xs) = Inr (length xs)"
| "py_len (PDict d) = Inr (length d)"
| "py_len (PSet xs) = Inr (length xs)"
| "py_len _ = Inl TypeError"

text \<open>The values \<^verbatim>\<open>for x in v\<close> runs through.\<close>

fun py_iter :: "pyval \<Rightarrow> error + pyval list" where
  "py_iter (PStr s) = Inr (map (\<lambda>c. PStr [c]) s)"
| "py_iter (PList xs) = Inr xs"
| "py_iter (PDict d) = Inr (map (\<lambda>kv. PStr (fst kv)) d)"
| "py_iter (PSet xs) = Inr (map PStr xs)"
| "py_iter _ = Inl TypeError"

text \<open>Values that cannot be members of a set.\<close>

fun hashable :: "pyval \<Rightarrow> bool" where
  "hashable (PList xs) = False"
| "hashable (PDict d) = False"
| "hashable (PSet xs) = False"
| "hashable _ = True"

section \<open>What the script uses of Python's own: \<^verbatim>\<open>json.dumps\<close> and formatting\<close>

text \<open>
  \<^verbatim>\<open>json.dumps(v)\<close> with its default arguments. It raises \<^verbatim>\<open>TypeError\<close> for a value
  that holds a set anywhere, and for every other value returns its JSON text: \<^verbatim>\<open>null\<close>,
  \<^verbatim>\<open>true\<close>, \<^verbatim>\<open>false\<close>, an integer in decimal, a string between double quotes, the items
  of a list or of a dictionary separated by a comma and a space, a key and its value by a
  colon and a space. In a string, the double quote, the backslash and the control characters
  that have a short form are written with a backslash, and every other character outside the
  printable ASCII range as a backslash, the letter u and the four hexadecimal digits of its
  number. A character is taken for the code point of its number.
\<close>

primrec serialisable :: "pyval \<Rightarrow> bool" where
  "serialisable PNone = True"
| "serialisable (PBool b) = True"
| "serialisable (PInt n) = True"
| "serialisable (PStr s) = True"
| "serialisable (PList xs) = list_all id (map serialisable xs)"
| "serialisable (PDict d) = list_all snd (map (map_prod id serialisable) d)"
| "serialisable (PSet xs) = False"

definition hex_digit :: "nat \<Rightarrow> char" where
  "hex_digit n = ''0123456789abcdef'' ! (n mod 16)"

definition escape :: "char \<Rightarrow> string" where
  "escape c =
     (if c = CHR 0x22 then [CHR 0x5C, CHR 0x22]
      else if c = CHR 0x5C then [CHR 0x5C, CHR 0x5C]
      else if c = CHR 0x0A then [CHR 0x5C, CHR ''n'']
      else if c = CHR 0x0D then [CHR 0x5C, CHR ''r'']
      else if c = CHR 0x09 then [CHR 0x5C, CHR ''t'']
      else if c = CHR 0x08 then [CHR 0x5C, CHR ''b'']
      else if c = CHR 0x0C then [CHR 0x5C, CHR ''f'']
      else if 32 \<le> (of_char c :: nat) \<and> (of_char c :: nat) \<le> 126 then [c]
      else [CHR 0x5C, CHR ''u'', CHR ''0'', CHR ''0'',
            hex_digit (of_char c div 16), hex_digit (of_char c)])"

definition quoted :: "string \<Rightarrow> string" where
  "quoted s = [CHR 0x22] @ concat (map escape s) @ [CHR 0x22]"

text \<open>A natural number in decimal, and \<^verbatim>\<open>str(i)\<close> for an integer.\<close>

function decimal :: "nat \<Rightarrow> string" where
  "decimal n =
     (if n < 10 then [''0123456789'' ! n]
      else decimal (n div 10) @ [''0123456789'' ! (n mod 10)])"
  by pat_completeness auto
termination
  by (relation "measure id") auto

definition str_int :: "int \<Rightarrow> string" where
  "str_int i = (if i < 0 then ''-'' @ decimal (nat (- i)) else decimal (nat i))"

text \<open>\<^verbatim>\<open>', '.join(parts)\<close>.\<close>

fun joined :: "string list \<Rightarrow> string" where
  "joined [] = []"
| "joined [x] = x"
| "joined (x # y # rest) = x @ '', '' @ joined (y # rest)"

primrec json_text :: "pyval \<Rightarrow> string" where
  "json_text PNone = ''null''"
| "json_text (PBool b) = (if b then ''true'' else ''false'')"
| "json_text (PInt n) = str_int n"
| "json_text (PStr s) = quoted s"
| "json_text (PList xs) = ''['' @ joined (map json_text xs) @ '']''"
| "json_text (PDict d) =
     ''{'' @ joined (map (\<lambda>kv. quoted (fst kv) @ '': '' @ snd kv)
                     (map (map_prod id json_text) d)) @ ''}''"
| "json_text (PSet xs) = []"

definition json_dumps :: "pyval \<Rightarrow> error + string" where
  "json_dumps v = (if serialisable v then Inr (json_text v) else Inl TypeError)"

text \<open>
  \<^verbatim>\<open>repr(s)\<close> of a string: between single quotes, or between double quotes when the string
  holds a single quote and no double quote; the quote used and the backslash are written
  with a backslash, tab, newline and carriage return in their short forms, and every other
  character that is not printable as a backslash, the letter x and the two hexadecimal
  digits of its number.
\<close>

definition printable :: "char \<Rightarrow> bool" where
  "printable c =
     ((32 \<le> (of_char c :: nat) \<and> (of_char c :: nat) \<le> 126)
      \<or> (161 \<le> (of_char c :: nat) \<and> (of_char c :: nat) \<noteq> 173))"

definition repr_char :: "char \<Rightarrow> char \<Rightarrow> string" where
  "repr_char quote c =
     (if c = quote \<or> c = CHR 0x5C then [CHR 0x5C, c]
      else if c = CHR 0x09 then [CHR 0x5C, CHR ''t'']
      else if c = CHR 0x0A then [CHR 0x5C, CHR ''n'']
      else if c = CHR 0x0D then [CHR 0x5C, CHR ''r'']
      else if printable c then [c]
      else [CHR 0x5C, CHR ''x'', hex_digit (of_char c div 16), hex_digit (of_char c)])"

definition repr_str :: "string \<Rightarrow> string" where
  "repr_str s =
     (let quote = (if CHR 0x27 \<in> set s \<and> CHR 0x22 \<notin> set s then CHR 0x22 else CHR 0x27)
      in [quote] @ concat (map (repr_char quote) s) @ [quote])"

text \<open>\<^verbatim>\<open>repr(v)\<close>; the members of a set in the order in which Python iterates over it.\<close>

primrec py_repr :: "pyval \<Rightarrow> string" where
  "py_repr PNone = ''None''"
| "py_repr (PBool b) = (if b then ''True'' else ''False'')"
| "py_repr (PInt n) = str_int n"
| "py_repr (PStr s) = repr_str s"
| "py_repr (PList xs) = ''['' @ joined (map py_repr xs) @ '']''"
| "py_repr (PDict d) =
     ''{'' @ joined (map (\<lambda>kv. repr_str (fst kv) @ '': '' @ snd kv)
                     (map (map_prod id py_repr) d)) @ ''}''"
| "py_repr (PSet xs) = (if xs = [] then ''set()'' else ''{'' @ joined (map repr_str xs) @ ''}'')"

text \<open>
  A value between the braces of an f-string: a string stands for itself, every other value
  is written as \<^verbatim>\<open>repr\<close> writes it. Formatting never raises.
\<close>

definition format :: "pyval \<Rightarrow> string" where
  "format v = (case v of PStr s \<Rightarrow> s | _ \<Rightarrow> py_repr v)"

section \<open>The world the script acts on\<close>

text \<open>
  The boto3 client and resource objects are arguments of every function of the script. A call
  \<^verbatim>\<open>client.f(Key=value, ...)\<close> is the name of the operation and the dictionary of its keyword
  arguments; it acts on the state of the remote service and either returns a dictionary or
  raises.
\<close>

datatype action =
    CreateQueue | DeleteQueue | GetQueueByName
  | SendMessage | SendMessageBatch | ReceiveMessage
  | DeleteMessage | ChangeMessageVisibility | PurgeQueue

type_synonym 's service = "action \<Rightarrow> pydict \<Rightarrow> 's \<Rightarrow> (error + pydict) \<times> 's"

type_synonym log_entry = "action \<times> pydict \<times> (error + pydict)"

text \<open>
  What a run of the script can affect: the state of the service, the requests it has sent
  (each with the answer it got, oldest first), the lines it has printed, and the one
  variable of the module that is ever changed after it was set: the set \<^verbatim>\<open>queue_urls\<close> of
  the URLs of the queues the script has created, given by the list of its members.
\<close>

record 's world =
  backend :: 's
  calls :: "log_entry list"
  stdout :: "string list"
  queue_urls :: "pyval list"

type_synonym ('s, 'a) prog = "'s world \<Rightarrow> (error + 'a) \<times> 's world"

definition call :: "'s service \<Rightarrow> action \<Rightarrow> pydict \<Rightarrow> ('s, pydict) prog" where
  "call c m kw w =
     (case c m kw (backend w) of
        (r, s') \<Rightarrow> (r, w\<lparr>backend := s', calls := calls w @ [(m, kw, r)]\<rparr>))"

definition print :: "string \<Rightarrow> ('s, unit) prog" where
  "print line w = (Inr (), w\<lparr>stdout := stdout w @ [line]\<rparr>)"

text \<open>Sequencing: an exception of the first part ends the whole.\<close>

definition and_then :: "('s, 'a) prog \<Rightarrow> ('a \<Rightarrow> ('s, 'b) prog) \<Rightarrow> ('s, 'b) prog" where
  "and_then p f w = (case p w of (Inl e, w') \<Rightarrow> (Inl e, w') | (Inr x, w') \<Rightarrow> f x w')"

definition returns :: "error + 'a \<Rightarrow> ('s, 'a) prog" where
  "returns r w = (r, w)"

section \<open>The functions of \<^verbatim>\<open>sqs.py\<close>\<close>

definition QUEUE_NAME :: string where "QUEUE_NAME = ''example_queue''"
definition QUEUE_NAME_FIFO :: string where "QUEUE_NAME_FIFO = ''example_fifo_queue.fifo''"
definition QUEUE_NAME_DEAD :: string where "QUEUE_NAME_DEAD = ''example_dead_queue''"
definition QUEUE_MAIN :: string where "QUEUE_MAIN = ''main_queue''"

text \<open>\<^verbatim>\<open>D if name is None else name\<close>.\<close>

definition name_or :: "string \<Rightarrow> pyval \<Rightarrow> pyval" where
  "name_or d name = (if name = PNone then PStr d else name)"

definition sqs_create_queue :: "'s service \<Rightarrow> pyval \<Rightarrow> ('s, pydict) prog" where
  "sqs_create_queue client name =
     call client CreateQueue [(''QueueName'', name_or QUEUE_NAME name)]"

text \<open>The loop of \<^verbatim>\<open>sqs_delete_queue\<close> over a set of URLs, filling \<^verbatim>\<open>response\<close>.\<close>

fun delete_each :: "'s service \<Rightarrow> string list \<Rightarrow> pydict \<Rightarrow> ('s, pydict) prog" where
  "delete_each client [] response w = (Inr response, w)"
| "delete_each client (u # us) response w =
     (case call client DeleteQueue [(''QueueUrl'', PStr u)] w of
        (Inl e, w') \<Rightarrow> (Inl e, w')
      | (Inr r, w') \<Rightarrow> delete_each client us (AList.update u (PDict r) response) w')"

fun sqs_delete_queue :: "'s service \<Rightarrow> pyval \<Rightarrow> ('s, pydict) prog" where
  "sqs_delete_queue client (PStr url) w = call client DeleteQueue [(''QueueUrl'', PStr url)] w"
| "sqs_delete_queue client (PSet urls) w = delete_each client urls [] w"
| "sqs_delete_queue client _ w = (Inl TypeError, w)"

definition sqs_create_fifo_queue :: "'s service \<Rightarrow> pyval \<Rightarrow> ('s, pydict) prog" where
  "sqs_create_fifo_queue client name =
     call client CreateQueue
       [(''QueueName'', name_or QUEUE_NAME_FIFO name),
        (''Attributes'', PDict [(''FifoQueue'', PStr ''true'')])]"

definition redrive_policy :: "pyval \<Rightarrow> pyval" where
  "redrive_policy dep_arn =
     PDict [(''deadLetterTargetArn'', dep_arn), (''maxReceiveCount'', PInt 3)]"

text \<open>The policy is written out by \<^verbatim>\<open>json.dumps\<close> before the request is made.\<close>

definition sqs_create_queue_dead_dependency ::
  "'s service \<Rightarrow> pyval \<Rightarrow> pyval \<Rightarrow> ('s, pydict) prog" where
  "sqs_create_queue_dead_dependency client dep_arn name =
     and_then (returns (json_dumps (redrive_policy dep_arn))) (\<lambda>policy.
       call client CreateQueue
         [(''QueueName'', name_or QUEUE_MAIN name),
          (''Attributes'', PDict
             [(''DelaySeconds'', PStr ''0''),
              (''MaximumMessageSize'', PStr ''262144''),
              (''VisibilityTimeout'', PStr ''30''),
              (''MessageRetentionPeriod'', PStr ''345680''),
              (''ReceiveMessageWaitTimeSeconds'', PStr ''0''),
              (''RedrivePolicy'', PStr policy)])])"

text \<open>
  \<^verbatim>\<open>resource.get_queue_by_name(QueueName=name).attributes['QueueArn']\<close>: the queue object
  the resource returns is given by its dictionary of attributes.
\<close>

definition get_queue_arn :: "'s service \<Rightarrow> pyval \<Rightarrow> ('s, pyval) prog" where
  "get_queue_arn resource name =
     and_then (call resource GetQueueByName [(''QueueName'', name)])
       (\<lambda>attributes. returns (subscript (PDict attributes) ''QueueArn''))"

text \<open>
  \<^verbatim>\<open>client.send_message(QueueUrl=url, **msg)\<close>: Python refuses a keyword that is given
  twice.
\<close>

definition send_message_to_queue :: "'s service \<Rightarrow> pyval \<Rightarrow> pydict \<Rightarrow> ('s, pydict) prog" where
  "send_message_to_queue client url msg w =
     (if ''QueueUrl'' \<in> fst ` set msg then (Inl TypeError, w)
      else call client SendMessage ((''QueueUrl'', url) # msg) w)"

definition send_batch_messages :: "'s service \<Rightarrow> pyval \<Rightarrow> pyval \<Rightarrow> ('s, pydict) prog" where
  "send_batch_messages client url msgs =
     call client SendMessageBatch [(''QueueUrl'', url), (''Entries'', msgs)]"

definition poll_queue :: "'s service \<Rightarrow> pyval \<Rightarrow> pyval \<Rightarrow> ('s, pydict) prog" where
  "poll_queue client url max_messages =
     call client ReceiveMessage [(''QueueUrl'', url), (''MaxNumberOfMessages'', max_messages)]"

text \<open>The function nested in \<^verbatim>\<open>process_queue\<close>; \<^verbatim>\<open>client\<close> and \<^verbatim>\<open>url\<close> are those of
  the enclosing call.\<close>

definition delete_message_from_queue :: "'s service \<Rightarrow> pyval \<Rightarrow> pyval \<Rightarrow> ('s, pydict) prog" where
  "delete_message_from_queue client url receipt =
     call client DeleteMessage [(''QueueUrl'', url), (''ReceiptHandle'', receipt)]"

definition processing_line :: "pyval \<Rightarrow> pyval \<Rightarrow> string" where
  "processing_line message_id body =
     ''Processing message: '' @ format message_id @ ''; body: '' @ format body"

text \<open>The body of the \<^verbatim>\<open>for message in objects['Messages']\<close> loop.\<close>

definition process_message :: "'s service \<Rightarrow> pyval \<Rightarrow> pyval \<Rightarrow> ('s, unit) prog" where
  "process_message client url message =
     and_then (returns (subscript message ''MessageId'')) (\<lambda>message_id.
     and_then (returns (subscript message ''Body'')) (\<lambda>body.
     and_then (print (processing_line message_id body)) (\<lambda>_.
     and_then (returns (subscript message ''ReceiptHandle'')) (\<lambda>receipt.
     and_then (delete_message_from_queue client url receipt) (\<lambda>_.
     returns (Inr ()))))))"

fun process_messages :: "'s service \<Rightarrow> pyval \<Rightarrow> pyval list \<Rightarrow> ('s, unit) prog" where
  "process_messages client url [] w = (Inr (), w)"
| "process_messages client url (message # rest) w =
     (case process_message client url message w of
        (Inl e, w') \<Rightarrow> (Inl e, w')
      | (Inr _, w') \<Rightarrow> process_messages client url rest w')"

definition process_queue :: "'s service \<Rightarrow> pyval \<Rightarrow> ('s, unit) prog" where
  "process_queue client url =
     and_then (poll_queue client url (PInt 10)) (\<lambda>objects.
       case map_of objects ''Messages'' of
         None \<Rightarrow> returns (Inr ())
       | Some messages \<Rightarrow>
           and_then (returns (py_len messages)) (\<lambda>n.
             if n \<noteq> 0
             then and_then (returns (py_iter messages)) (process_messages client url)
             else returns (Inr ())))"

definition change_message_visibility_timeout ::
  "'s service \<Rightarrow> pyval \<Rightarrow> pyval \<Rightarrow> pyval \<Rightarrow> ('s, pydict) prog" where
  "change_message_visibility_timeout client url receipt timeout =
     call client ChangeMessageVisibility
       [(''QueueUrl'', url), (''ReceiptHandle'', receipt), (''VisibilityTimeout'', timeout)]"


text \<open>
  Line 322 of the script, with the two queue names as parameters: the ARN of the target is
  looked up first, then the dependent queue is created with a policy built from it.
\<close>

definition create_with_redrive ::
  "'s service \<Rightarrow> 's service \<Rightarrow> pyval \<Rightarrow> pyval \<Rightarrow> ('s, pydict) prog" where
  "create_with_redrive client resource name target =
     and_then (get_queue_arn resource target)
       (\<lambda>dep_arn. sqs_create_queue_dead_dependency client dep_arn name)"

subsection \<open>The script's main part\<close>

text \<open>The client and the resource are what \<^verbatim>\<open>sqs_client()\<close> and \<^verbatim>\<open>sqs_resource()\<close>
  return.\<close>

text \<open>\<^verbatim>\<open>queue_urls = set()\<close> and \<^verbatim>\<open>queue_urls.add(v)\<close>.\<close>

definition new_queue_urls :: "('s, unit) prog" where
  "new_queue_urls w = (Inr (), w\<lparr>queue_urls := []\<rparr>)"

definition queue_urls_add :: "pyval \<Rightarrow> ('s, unit) prog" where
  "queue_urls_add v w =
     (if hashable v
      then (Inr (), w\<lparr>queue_urls :=
              (if v \<in> set (queue_urls w) then queue_urls w else queue_urls w @ [v])\<rparr>)
      else (Inl TypeError, w))"

text \<open>\<^verbatim>\<open>print(json.dumps(v))\<close>.\<close>

definition print_json :: "pyval \<Rightarrow> ('s, unit) prog" where
  "print_json v = and_then (returns (json_dumps v)) print"

text \<open>
  What the script does with the answer to each of its four \<^verbatim>\<open>create_queue\<close> requests:
  \<^verbatim>\<open>URL = response['QueueUrl']\<close>, \<^verbatim>\<open>queue_urls.add(URL)\<close>,
  \<^verbatim>\<open>print(json.dumps(response))\<close>.
\<close>

definition note_url :: "pydict \<Rightarrow> ('s, pyval) prog" where
  "note_url response =
     and_then (returns (subscript (PDict response) ''QueueUrl'')) (\<lambda>url.
     and_then (queue_urls_add url) (\<lambda>_.
     and_then (print_json (PDict response)) (\<lambda>_.
     returns (Inr url))))"

text \<open>The part under \<^verbatim>\<open>## Queue creation\<close> (lines 299 to 311); it yields the URL of
  the regular queue.\<close>

definition create_plain_queues :: "'s service \<Rightarrow> ('s, pyval) prog" where
  "create_plain_queues client =
     and_then (sqs_create_queue client PNone) (\<lambda>reg_response.
     and_then (note_url reg_response) (\<lambda>QUEUE_URL_REG.
     and_then (sqs_create_fifo_queue client PNone) (\<lambda>fifo_response.
     and_then (note_url fifo_response) (\<lambda>QUEUE_URL_FIFO.
     returns (Inr QUEUE_URL_REG)))))"

text \<open>The part under \<^verbatim>\<open>## Dead Letter\<close> (lines 313 to 325).\<close>

definition create_dead_letter :: "'s service \<Rightarrow> 's service \<Rightarrow> ('s, unit) prog" where
  "create_dead_letter client resource =
     and_then (sqs_create_queue client (PStr QUEUE_NAME_DEAD)) (\<lambda>dead_response.
     and_then (note_url dead_response) (\<lambda>QUEUE_URL_DEAD.
     and_then (create_with_redrive client resource (PStr QUEUE_MAIN) (PStr QUEUE_NAME_DEAD))
       (\<lambda>main_response.
     and_then (note_url main_response) (\<lambda>QUEUE_URL_MAIN.
     returns (Inr ())))))"

text \<open>\<^verbatim>\<open>example_message\<close>; its date is \<^verbatim>\<open>str(dt.now())\<close>, a parameter.\<close>

definition example_message :: "string \<Rightarrow> pydict" where
  "example_message today =
     [(''MessageAttributes'', PDict
         [(''Title'', PDict [(''DataType'', PStr ''String''),
                            (''StringValue'', PStr ''My example message'')]),
          (''Author'', PDict [(''DataType'', PStr ''String''),
                             (''StringValue'', PStr ''Example Author'')]),
          (''Date'', PDict [(''DataType'', PStr ''String''),
                           (''StringValue'', PStr today)])]),
      (''MessageBody'', PStr ''This is my first SQS message!!! :D :D'')]"

text \<open>The four batch entries; \<^verbatim>\<open>uuid k\<close> is what the \<open>k\<close>-th \<^verbatim>\<open>str(uuid.uuid1())\<close> gives.
  A key written before \<^verbatim>\<open>**example_message\<close> keeps its place and takes the later value,
  and \<^verbatim>\<open>example_message\<close> has no \<^verbatim>\<open>Id\<close>.\<close>

definition batch_entries :: "string \<Rightarrow> (nat \<Rightarrow> string) \<Rightarrow> pyval" where
  "batch_entries today uuid =
     PList (map (\<lambda>k. PDict ((''Id'', PStr (uuid k)) # example_message today)) [0..<4])"

text \<open>The part from \<^verbatim>\<open>## Send a Message\<close> on (lines 327 to 361).\<close>

definition send_and_process ::
  "string \<Rightarrow> (nat \<Rightarrow> string) \<Rightarrow> 's service \<Rightarrow> pyval \<Rightarrow> ('s, unit) prog" where
  "send_and_process today uuid client QUEUE_URL_REG =
     and_then (send_message_to_queue client QUEUE_URL_REG (example_message today))
       (\<lambda>send_message_response.
     and_then (print_json (PDict send_message_response)) (\<lambda>_.
     and_then (send_batch_messages client QUEUE_URL_REG (batch_entries today uuid)) (\<lambda>sent.
     and_then (print_json (PDict sent)) (\<lambda>_.
     process_queue client QUEUE_URL_REG))))"

definition main ::
  "string \<Rightarrow> (nat \<Rightarrow> string) \<Rightarrow> 's service \<Rightarrow> 's service \<Rightarrow> ('s, unit) prog" where
  "main today uuid client resource =
     and_then new_queue_urls (\<lambda>_.
     and_then (create_plain_queues client) (\<lambda>QUEUE_URL_REG.
     and_then (create_dead_letter client resource) (\<lambda>_.
     send_and_process today uuid client QUEUE_URL_REG)))"

subsection \<open>Observations on a run\<close>

text \<open>
  Requests sent to a service one after the other, each to the state the one before it has
  left, until one is refused: the requests sent, each with its answer, and the state of the
  service after the last of them.
\<close>

fun requests :: "'s service \<Rightarrow> (action \<times> pydict) list \<Rightarrow> 's \<Rightarrow> log_entry list \<times> 's" where
  "requests c [] s = ([], s)"
| "requests c ((m, kw) # rest) s =
     (case c m kw s of
        (Inl e, s') \<Rightarrow> ([(m, kw, Inl e)], s')
      | (Inr a, s') \<Rightarrow>
          (case requests c rest s' of (entries, s'') \<Rightarrow> ((m, kw, Inr a) # entries, s'')))"

text \<open>The exception of the first refused request in a log, and the answers to the accepted
  ones.\<close>

fun refusal :: "log_entry list \<Rightarrow> error option" where
  "refusal [] = None"
| "refusal ((m, kw, Inl e) # rest) = Some e"
| "refusal ((m, kw, Inr a) # rest) = refusal rest"

fun answers :: "log_entry list \<Rightarrow> pydict list" where
  "answers [] = []"
| "answers ((m, kw, Inl e) # rest) = answers rest"
| "answers ((m, kw, Inr a) # rest) = a # answers rest"

text \<open>The messages in the answer to a \<^verbatim>\<open>receive_message\<close> request: what iterating over
  its \<^verbatim>\<open>Messages\<close> gives, and nothing when it has none.\<close>

definition polled :: "pydict \<Rightarrow> pyval list" where
  "polled objects =
     (case map_of objects ''Messages'' of
        None \<Rightarrow> []
      | Some messages \<Rightarrow> (case py_iter messages of Inl e \<Rightarrow> [] | Inr items \<Rightarrow> items))"

text \<open>
  Time passing between two calls: the script does nothing, and what the time does to the
  state of the service is \<open>elapse\<close>.
\<close>

definition meanwhile :: "('s \<Rightarrow> 's) \<Rightarrow> ('s, unit) prog" where
  "meanwhile elapse w = (Inr (), w\<lparr>backend := elapse (backend w)\<rparr>)"

text \<open>The requests a run has added to the log.\<close>

definition new_calls :: "'s world \<Rightarrow> 's world \<Rightarrow> log_entry list" where
  "new_calls w w' = drop (length (calls w)) (calls w')"

text \<open>The receipts of the messages a log shows as deleted.\<close>

fun deleted_receipts :: "log_entry list \<Rightarrow> pyval list" where
  "deleted_receipts [] = []"
| "deleted_receipts ((m, kw, r) # rest) =
     (case (m, map_of kw ''ReceiptHandle'', r) of
        (DeleteMessage, Some receipt, Inr _) \<Rightarrow> receipt # deleted_receipts rest
      | _ \<Rightarrow> deleted_receipts rest)"

text \<open>The redrive policy a request asks for, if it is the creation of a queue with one.\<close>

definition requested_policy :: "log_entry \<Rightarrow> pyval option" where
  "requested_policy entry =
     (case entry of
        (CreateQueue, kw, r) \<Rightarrow>
          (case map_of kw ''Attributes'' of
             Some (PDict attributes) \<Rightarrow> map_of attributes ''RedrivePolicy''
           | _ \<Rightarrow> None)
      | _ \<Rightarrow> None)"

text \<open>Requests none of which creates a queue with a redrive policy.\<close>

definition no_policy :: "log_entry list \<Rightarrow> bool" where
  "no_policy entries = list_all (\<lambda>request. requested_policy request = None) entries"

subsection \<open>The drain operation as the specification words it\<close>

text \<open>
  The specification's \<^verbatim>\<open>drainOnce\<close>: receive up to \<^verbatim>\<open>maxMessages\<close>, apply a processing
  function supplied by the caller to each message, delete the message only if processing
  succeeds, and otherwise leave it in flight. It is here to be compared with
  \<^verbatim>\<open>process_queue\<close>.
\<close>

fun drain_messages_spec ::
  "(pyval \<Rightarrow> bool) \<Rightarrow> 's service \<Rightarrow> pyval \<Rightarrow> pyval list \<Rightarrow> ('s, unit) prog" where
  "drain_messages_spec handler client url [] w = (Inr (), w)"
| "drain_messages_spec handler client url (message # rest) w =
     (if handler message
      then (case and_then (returns (subscript message ''ReceiptHandle''))
                   (delete_message_from_queue client url) w of
              (Inl e, w') \<Rightarrow> (Inl e, w')
            | (Inr _, w') \<Rightarrow> drain_messages_spec handler client url rest w')
      else drain_messages_spec handler client url rest w)"

definition drainOnce_spec ::
  "(pyval \<Rightarrow> bool) \<Rightarrow> 's service \<Rightarrow> pyval \<Rightarrow> pyval \<Rightarrow> ('s, unit) prog" where
  "drainOnce_spec handler client url maxMessages =
     and_then (poll_queue client url maxMessages) (\<lambda>objects.
       case map_of objects ''Messages'' of
         Some (PList messages) \<Rightarrow> drain_messages_spec handler client url messages
       | _ \<Rightarrow> returns (Inr ()))"

definition always_fails :: "pyval \<Rightarrow> bool" where
  "always_fails message = False"

subsection \<open>Every function as an operation\<close>


definition raised :: "('s, 'a) prog \<Rightarrow> 's world \<Rightarrow> error option \<times> 's world" where
  "raised p w = (case p w of (Inl e, w') \<Rightarrow> (Some e, w') | (Inr x, w') \<Rightarrow> (None, w'))"


section \<open>An in-memory service\<close>

text \<open>
  One of the clients the functions can be given: an object that keeps its queues in memory.
  It is the concrete client wherever a statement below is evaluated on an example. A queue
  has a URL and an ARN derived from its name, a received message stays hidden until its
  visibility deadline, a request that misses a required parameter is refused as a whole, and
  a name cannot be created again right after its queue was deleted (the error quoted at the
  end of \<^verbatim>\<open>sqs.py\<close>).
\<close>

record msg =
  msg_id :: string
  msg_body :: string
  msg_receipt :: string
  msg_deadline :: nat
  msg_count :: nat

record queue =
  q_name :: string
  q_attrs :: pydict
  q_msgs :: "msg list"

record mem =
  m_queues :: "queue list"
  m_recent :: "string list"
  m_clock :: nat
  m_issued :: nat

definition url_of :: "string \<Rightarrow> string" where
  "url_of n = ''https://sqs/'' @ n"

definition arn_of :: "string \<Rightarrow> string" where
  "arn_of n = ''arn:aws:sqs:'' @ n"

definition mk_id :: "nat \<Rightarrow> string" where
  "mk_id n = CHR ''m'' # replicate n (CHR ''i'')"

definition mk_receipt :: "nat \<Rightarrow> string" where
  "mk_receipt n = CHR ''r'' # replicate n (CHR ''i'')"

definition mem_empty :: mem where
  "mem_empty = \<lparr>m_queues = [], m_recent = [], m_clock = 0, m_issued = 0\<rparr>"

definition has_url :: "string \<Rightarrow> queue \<Rightarrow> bool" where
  "has_url u q = (url_of (q_name q) = u)"

definition put_msgs :: "string \<Rightarrow> msg list \<Rightarrow> mem \<Rightarrow> mem" where
  "put_msgs u ms s =
     s\<lparr>m_queues := map (\<lambda>q. if has_url u q then q\<lparr>q_msgs := ms\<rparr> else q) (m_queues s)\<rparr>"

definition advance :: "nat \<Rightarrow> mem \<Rightarrow> mem" where
  "advance n s = s\<lparr>m_clock := m_clock s + n\<rparr>"

definition mem_create_queue :: "pydict \<Rightarrow> mem \<Rightarrow> (error + pydict) \<times> mem" where
  "mem_create_queue kw s =
     (case map_of kw ''QueueName'' of
        Some (PStr n) \<Rightarrow>
          if n \<in> set (m_recent s) then (Inl (BotoError ''QueueDeletedRecently''), s)
          else if find (has_url (url_of n)) (m_queues s) \<noteq> None
          then (Inr [(''QueueUrl'', PStr (url_of n))], s)
          else (Inr [(''QueueUrl'', PStr (url_of n))],
                s\<lparr>m_queues := m_queues s @
                   [\<lparr>q_name = n,
                     q_attrs = (case map_of kw ''Attributes'' of Some (PDict a) \<Rightarrow> a | _ \<Rightarrow> []),
                     q_msgs = []\<rparr>]\<rparr>)
      | _ \<Rightarrow> (Inl (BotoError ''ParamValidationError''), s))"

definition mem_delete_queue :: "pydict \<Rightarrow> mem \<Rightarrow> (error + pydict) \<times> mem" where
  "mem_delete_queue kw s =
     (case map_of kw ''QueueUrl'' of
        Some (PStr u) \<Rightarrow>
          (case find (has_url u) (m_queues s) of
             None \<Rightarrow> (Inl (BotoError ''NonExistentQueue''), s)
           | Some q \<Rightarrow>
               (Inr [], s\<lparr>m_queues := filter (\<lambda>q. \<not> has_url u q) (m_queues s),
                          m_recent := q_name q # m_recent s\<rparr>))
      | _ \<Rightarrow> (Inl (BotoError ''ParamValidationError''), s))"

definition mem_get_queue_by_name :: "pydict \<Rightarrow> mem \<Rightarrow> (error + pydict) \<times> mem" where
  "mem_get_queue_by_name kw s =
     (case map_of kw ''QueueName'' of
        Some (PStr n) \<Rightarrow>
          (case find (has_url (url_of n)) (m_queues s) of
             None \<Rightarrow> (Inl (BotoError ''NonExistentQueue''), s)
           | Some q \<Rightarrow> (Inr ((''QueueArn'', PStr (arn_of n)) # q_attrs q), s))
      | _ \<Rightarrow> (Inl (BotoError ''ParamValidationError''), s))"

definition new_msg :: "nat \<Rightarrow> string \<Rightarrow> msg" where
  "new_msg n body =
     \<lparr>msg_id = mk_id n, msg_body = body, msg_receipt = [], msg_deadline = 0, msg_count = 0\<rparr>"

definition mem_send_message :: "pydict \<Rightarrow> mem \<Rightarrow> (error + pydict) \<times> mem" where
  "mem_send_message kw s =
     (case (map_of kw ''QueueUrl'', map_of kw ''MessageBody'') of
        (Some (PStr u), Some (PStr b)) \<Rightarrow>
          (case find (has_url u) (m_queues s) of
             None \<Rightarrow> (Inl (BotoError ''NonExistentQueue''), s)
           | Some q \<Rightarrow>
               (Inr [(''MessageId'', PStr (mk_id (m_issued s)))],
                (put_msgs u (q_msgs q @ [new_msg (m_issued s) b]) s)
                  \<lparr>m_issued := Suc (m_issued s)\<rparr>))
      | _ \<Rightarrow> (Inl (BotoError ''ParamValidationError''), s))"

text \<open>
  A batch entry must carry an \<^verbatim>\<open>Id\<close> and a \<^verbatim>\<open>MessageBody\<close>, or the request is refused;
  an entry whose body holds a character the service does not accept is reported as failed
  under its \<^verbatim>\<open>Id\<close>, next to the entries that were stored.
\<close>

fun entry_fields :: "pyval \<Rightarrow> (string \<times> string) option" where
  "entry_fields (PDict e) =
     (case (map_of e ''Id'', map_of e ''MessageBody'') of
        (Some (PStr i), Some (PStr b)) \<Rightarrow> Some (i, b)
      | _ \<Rightarrow> None)"
| "entry_fields _ = None"

definition acceptable :: "string \<Rightarrow> bool" where
  "acceptable b = (CHR 0x00 \<notin> set b)"

fun store_entries ::
  "nat \<Rightarrow> (string \<times> string) list \<Rightarrow> msg list \<times> pyval list \<times> pyval list \<times> nat" where
  "store_entries n [] = ([], [], [], n)"
| "store_entries n ((i, b) # es) =
     (if acceptable b
      then (case store_entries (Suc n) es of
              (ms, ok, bad, n') \<Rightarrow>
                (new_msg n b # ms,
                 PDict [(''Id'', PStr i), (''MessageId'', PStr (mk_id n))] # ok, bad, n'))
      else (case store_entries n es of
              (ms, ok, bad, n') \<Rightarrow>
                (ms, ok,
                 PDict [(''Id'', PStr i), (''SenderFault'', PBool True),
                        (''Code'', PStr ''InvalidMessageContents'')] # bad, n')))"

definition mem_send_message_batch :: "pydict \<Rightarrow> mem \<Rightarrow> (error + pydict) \<times> mem" where
  "mem_send_message_batch kw s =
     (case (map_of kw ''QueueUrl'', map_of kw ''Entries'') of
        (Some (PStr u), Some (PList es)) \<Rightarrow>
          if None \<in> set (map entry_fields es)
          then (Inl (BotoError ''ParamValidationError''), s)
          else if es = [] then (Inl (BotoError ''EmptyBatchRequest''), s)
          else if 10 < length es then (Inl (BotoError ''TooManyEntriesInBatchRequest''), s)
          else
            (case find (has_url u) (m_queues s) of
               None \<Rightarrow> (Inl (BotoError ''NonExistentQueue''), s)
             | Some q \<Rightarrow>
                 (case store_entries (m_issued s) (map (\<lambda>e. the (entry_fields e)) es) of
                    (ms, ok, bad, n') \<Rightarrow>
                      (Inr [(''Successful'', PList ok), (''Failed'', PList bad)],
                       (put_msgs u (q_msgs q @ ms) s)\<lparr>m_issued := n'\<rparr>)))
      | _ \<Rightarrow> (Inl (BotoError ''ParamValidationError''), s))"

text \<open>
  Receiving hands out up to the requested number of visible messages; each gets a fresh
  receipt and stays hidden for the 30 seconds of the default visibility timeout.
\<close>

definition as_delivered :: "msg \<Rightarrow> pyval" where
  "as_delivered m =
     PDict [(''MessageId'', PStr (msg_id m)), (''ReceiptHandle'', PStr (msg_receipt m)),
            (''Body'', PStr (msg_body m))]"

fun deliver :: "nat \<Rightarrow> nat \<Rightarrow> nat \<Rightarrow> msg list \<Rightarrow> msg list \<times> msg list \<times> nat" where
  "deliver budget now n [] = ([], [], n)"
| "deliver budget now n (m # ms) =
     (if 0 < budget \<and> msg_deadline m \<le> now
      then (let m' = m\<lparr>msg_receipt := mk_receipt n, msg_deadline := now + 30,
                        msg_count := Suc (msg_count m)\<rparr>
            in case deliver (budget - 1) now (Suc n) ms of
                 (ms', out, n') \<Rightarrow> (m' # ms', m' # out, n'))
      else (case deliver budget now n ms of
              (ms', out, n') \<Rightarrow> (m # ms', out, n')))"

definition mem_receive_message :: "pydict \<Rightarrow> mem \<Rightarrow> (error + pydict) \<times> mem" where
  "mem_receive_message kw s =
     (case (map_of kw ''QueueUrl'', map_of kw ''MaxNumberOfMessages'') of
        (Some (PStr u), Some (PInt k)) \<Rightarrow>
          if k < 1 \<or> 10 < k then (Inl (BotoError ''InvalidParameterValue''), s)
          else
            (case find (has_url u) (m_queues s) of
               None \<Rightarrow> (Inl (BotoError ''NonExistentQueue''), s)
             | Some q \<Rightarrow>
                 (case deliver (nat k) (m_clock s) (m_issued s) (q_msgs q) of
                    (ms', out, n') \<Rightarrow>
                      (Inr (if out = [] then []
                            else [(''Messages'', PList (map as_delivered out))]),
                       (put_msgs u ms' s)\<lparr>m_issued := n'\<rparr>)))
      | _ \<Rightarrow> (Inl (BotoError ''ParamValidationError''), s))"

definition mem_delete_message :: "pydict \<Rightarrow> mem \<Rightarrow> (error + pydict) \<times> mem" where
  "mem_delete_message kw s =
     (case (map_of kw ''QueueUrl'', map_of kw ''ReceiptHandle'') of
        (Some (PStr u), Some (PStr r)) \<Rightarrow>
          (case find (has_url u) (m_queues s) of
             None \<Rightarrow> (Inl (BotoError ''NonExistentQueue''), s)
           | Some q \<Rightarrow>
               if r \<noteq> [] \<and> r \<in> msg_receipt ` set (q_msgs q)
               then (Inr [], put_msgs u (filter (\<lambda>m. msg_receipt m \<noteq> r) (q_msgs q)) s)
               else (Inl (BotoError ''ReceiptHandleIsInvalid''), s))
      | _ \<Rightarrow> (Inl (BotoError ''ParamValidationError''), s))"

text \<open>
  Changing the visibility of a delivery sets its deadline to the given number of seconds
  from now. A receipt the queue does not know and a receipt whose message is no longer in
  flight get the same answer.
\<close>

definition in_flight :: "nat \<Rightarrow> string \<Rightarrow> msg \<Rightarrow> bool" where
  "in_flight now r m = (msg_receipt m = r \<and> now < msg_deadline m)"

definition mem_change_message_visibility :: "pydict \<Rightarrow> mem \<Rightarrow> (error + pydict) \<times> mem" where
  "mem_change_message_visibility kw s =
     (case (map_of kw ''QueueUrl'', map_of kw ''ReceiptHandle'',
            map_of kw ''VisibilityTimeout'') of
        (Some (PStr u), Some (PStr r), Some (PInt t)) \<Rightarrow>
          if t < 0 \<or> 43200 < t then (Inl (BotoError ''InvalidParameterValue''), s)
          else
            (case find (has_url u) (m_queues s) of
               None \<Rightarrow> (Inl (BotoError ''NonExistentQueue''), s)
             | Some q \<Rightarrow>
                 if r \<noteq> [] \<and> find (in_flight (m_clock s) r) (q_msgs q) \<noteq> None
                 then (Inr [],
                       put_msgs u
                         (map (\<lambda>m. if msg_receipt m = r
                                   then m\<lparr>msg_deadline := m_clock s + nat t\<rparr> else m)
                            (q_msgs q)) s)
                 else (Inl (BotoError ''MessageNotAvailable''), s))
      | _ \<Rightarrow> (Inl (BotoError ''ParamValidationError''), s))"

definition mem_purge_queue :: "pydict \<Rightarrow> mem \<Rightarrow> (error + pydict) \<times> mem" where
  "mem_purge_queue kw s =
     (case map_of kw ''QueueUrl'' of
        Some (PStr u) \<Rightarrow>
          (case find (has_url u) (m_queues s) of
             None \<Rightarrow> (Inl (BotoError ''NonExistentQueue''), s)
           | Some q \<Rightarrow> (Inr [], put_msgs u [] s))
      | _ \<Rightarrow> (Inl (BotoError ''ParamValidationError''), s))"

fun mem_service :: "mem service" where
  "mem_service CreateQueue = mem_create_queue"
| "mem_service DeleteQueue = mem_delete_queue"
| "mem_service GetQueueByName = mem_get_queue_by_name"
| "mem_service SendMessage = mem_send_message"
| "mem_service SendMessageBatch = mem_send_message_batch"
| "mem_service ReceiveMessage = mem_receive_message"
| "mem_service DeleteMessage = mem_delete_message"
| "mem_service ChangeMessageVisibility = mem_change_message_visibility"
| "mem_service PurgeQueue = mem_purge_queue"

definition start :: "mem world" where
  "start = \<lparr>backend = mem_empty, calls = [], stdout = [], queue_urls = []\<rparr>"

subsection \<open>Example worlds\<close>

text \<open>Two empty queues \<^verbatim>\<open>a\<close> and \<^verbatim>\<open>b\<close>.\<close>

definition two_queues :: "mem world" where
  "two_queues =
     snd (sqs_create_queue mem_service (PStr ''b'')
       (snd (sqs_create_queue mem_service (PStr ''a'') start)))"

text \<open>The time and the deadline of a delivery in the in-memory service.\<close>

definition mem_now :: "mem \<Rightarrow> int" where
  "mem_now s = int (m_clock s)"

definition mem_deadline :: "mem \<Rightarrow> pyval \<Rightarrow> pyval \<Rightarrow> int option" where
  "mem_deadline s url receipt =
     (case (url, receipt) of
        (PStr u, PStr r) \<Rightarrow>
          (case find (has_url u) (m_queues s) of
             None \<Rightarrow> None
           | Some q \<Rightarrow>
               (case find (\<lambda>m. msg_receipt m = r) (q_msgs q) of
                  None \<Rightarrow> None
                | Some m \<Rightarrow> Some (int (msg_deadline m))))
      | _ \<Rightarrow> None)"

text \<open>Time passing in the in-memory service between two requests.\<close>

definition later :: "nat \<Rightarrow> mem world \<Rightarrow> mem world" where
  "later n w = w\<lparr>backend := advance n (backend w)\<rparr>"

text \<open>A queue \<^verbatim>\<open>q\<close>: empty; holding one message; with that message received; and
  31 seconds after the delivery, when its visibility has run out.\<close>

definition Q :: pyval where
  "Q = PStr (url_of ''q'')"

definition one_queue :: "mem world" where
  "one_queue = snd (sqs_create_queue mem_service (PStr ''q'') start)"

definition one_message :: "mem world" where
  "one_message =
     snd (send_message_to_queue mem_service Q [(''MessageBody'', PStr ''hello'')] one_queue)"

definition received :: "mem world" where
  "received = snd (poll_queue mem_service Q (PInt 10) one_message)"

definition expired :: "mem world" where
  "expired = later 31 received"

text \<open>Queues \<^verbatim>\<open>dead\<close> and \<^verbatim>\<open>main\<close>, the latter deleted a moment ago.\<close>

definition main_just_deleted :: "mem world" where
  "main_just_deleted =
     snd (sqs_delete_queue mem_service (PStr (url_of ''main''))
       (snd (sqs_create_queue mem_service (PStr ''main'')
         (snd (sqs_create_queue mem_service (PStr ''dead'') start)))))"

text \<open>Three batch entries, the second with a character the service does not accept, and
  an entry without a body.\<close>

definition entry :: "string \<Rightarrow> string \<Rightarrow> pyval" where
  "entry i b = PDict [(''Id'', PStr i), (''MessageBody'', PStr b)]"

definition three_entries :: pyval where
  "three_entries = PList [entry ''e1'' ''one'', entry ''e2'' [CHR 0x00], entry ''e3'' ''three'']"

definition two_entries_one_without_body :: pyval where
  "two_entries_one_without_body = PList [entry ''e1'' ''one'', PDict [(''Id'', PStr ''e2'')]]"

text \<open>The arguments under which the script's main part is run on the in-memory service.\<close>

definition demo_uuid :: "nat \<Rightarrow> string" where
  "demo_uuid k = replicate (Suc k) (CHR ''u'')"

definition after_main :: "mem world" where
  "after_main = snd (main ''today'' demo_uuid mem_service mem_service start)"

subsection \<open>Two other services\<close>

text \<open>
  A service that differs from the in-memory one in a single answer: when it accepts a
  change of visibility it adds the given seconds to the deadline the delivery has.
\<close>

definition stacking_change_message_visibility ::
  "pydict \<Rightarrow> mem \<Rightarrow> (error + pydict) \<times> mem" where
  "stacking_change_message_visibility kw s =
     (case (map_of kw ''QueueUrl'', map_of kw ''ReceiptHandle'',
            map_of kw ''VisibilityTimeout'') of
        (Some (PStr u), Some (PStr r), Some (PInt t)) \<Rightarrow>
          if t < 0 \<or> 43200 < t then (Inl (BotoError ''InvalidParameterValue''), s)
          else
            (case find (has_url u) (m_queues s) of
               None \<Rightarrow> (Inl (BotoError ''NonExistentQueue''), s)
             | Some q \<Rightarrow>
                 if r \<noteq> [] \<and> find (in_flight (m_clock s) r) (q_msgs q) \<noteq> None
                 then (Inr [],
                       put_msgs u
                         (map (\<lambda>m. if msg_receipt m = r
                                   then m\<lparr>msg_deadline := msg_deadline m + nat t\<rparr> else m)
                            (q_msgs q)) s)
                 else (Inl (BotoError ''MessageNotAvailable''), s))
      | _ \<Rightarrow> (Inl (BotoError ''ParamValidationError''), s))"

fun stacking_service :: "mem service" where
  "stacking_service ChangeMessageVisibility = stacking_change_message_visibility"
| "stacking_service m = mem_service m"

text \<open>
  A service that differs from the in-memory one in a single effect: it answers a
  \<^verbatim>\<open>delete_message\<close> request as the in-memory service does, but a copy of the message
  stays in the queue.
\<close>

fun copy_keeping_service :: "mem service" where
  "copy_keeping_service DeleteMessage = (\<lambda>kw s. (fst (mem_delete_message kw s), s))"
| "copy_keeping_service m = mem_service m"

subsection \<open>More example worlds\<close>

text \<open>The queue \<^verbatim>\<open>q\<close> holding two messages.\<close>

definition two_messages :: "mem world" where
  "two_messages =
     snd (send_message_to_queue mem_service Q [(''MessageBody'', PStr ''world'')] one_message)"


text \<open>The queue \<^verbatim>\<open>dead\<close> alone.\<close>

definition dead_queue_only :: "mem world" where
  "dead_queue_only = snd (sqs_create_queue mem_service (PStr ''dead'') start)"

section \<open>What a request does to the world\<close>

lemma call_unfold:
  "call c m kw w =
     (fst (c m kw (backend w)),
      w\<lparr>backend := snd (c m kw (backend w)),
        calls := calls w @ [(m, kw, fst (c m kw (backend w)))]\<rparr>)"
  by (simp add: call_def split: prod.splits)

lemma pair_of_fst: "fst p = a \<Longrightarrow> p = (a, snd p)"
  by (cases p) simp

section \<open>Deleting queues\<close>

lemma update_fresh:
  "k \<notin> fst ` set ps \<Longrightarrow> AList.update k v ps = ps @ [(k, v)]"
  by (induction ps) auto

lemma delete_each_requests:
  "distinct us \<Longrightarrow> set us \<inter> fst ` set acc = {} \<Longrightarrow>
   requests client (map (\<lambda>u. (DeleteQueue, [(''QueueUrl'', PStr u)])) us) (backend w)
     = (entries, s') \<Longrightarrow>
   delete_each client us acc w =
     ((case refusal entries of
         None \<Rightarrow> Inr (acc @ zip us (map PDict (answers entries)))
       | Some e \<Rightarrow> Inl e),
      w\<lparr>backend := s', calls := calls w @ entries\<rparr>)"
proof (induction us arbitrary: acc w entries s')
  case Nil
  then show ?case by auto
next
  case (Cons u us)
  let ?kw = "[(''QueueUrl'', PStr u)]"
  obtain r s1 where c: "client DeleteQueue ?kw (backend w) = (r, s1)"
    by (cases "client DeleteQueue ?kw (backend w)")
  define w1 where "w1 = w\<lparr>backend := s1, calls := calls w @ [(DeleteQueue, ?kw, r)]\<rparr>"
  have call: "call client DeleteQueue ?kw w = (r, w1)"
    using c by (simp add: call_def w1_def)
  show ?case
  proof (cases r)
    case (Inl e)
    with Cons.prems(3) c have "entries = [(DeleteQueue, ?kw, Inl e)]" "s' = s1"
      by auto
    with call Inl show ?thesis
      by (simp add: w1_def)
  next
    case (Inr a)
    obtain rest s2 where
      r: "requests client (map (\<lambda>u. (DeleteQueue, [(''QueueUrl'', PStr u)])) us) s1 = (rest, s2)"
      by (cases "requests client (map (\<lambda>u. (DeleteQueue, [(''QueueUrl'', PStr u)])) us) s1")
    with Cons.prems(3) c Inr have e: "entries = (DeleteQueue, ?kw, Inr a) # rest" "s' = s2"
      by auto
    from Cons.prems(2) have fresh: "u \<notin> fst ` set acc" by auto
    have d: "distinct us" using Cons.prems(1) by simp
    have f: "set us \<inter> fst ` set (acc @ [(u, PDict a)]) = {}"
      using Cons.prems(1,2) by auto
    have b: "requests client (map (\<lambda>u. (DeleteQueue, [(''QueueUrl'', PStr u)])) us) (backend w1)
               = (rest, s2)"
      using r by (simp add: w1_def)
    have "delete_each client (u # us) acc w = delete_each client us (acc @ [(u, PDict a)]) w1"
      using call Inr fresh by (simp add: update_fresh)
    also note Cons.IH[OF d f b]
    finally show ?thesis
      by (simp add: e w1_def Inr split: option.splits)
  qed
qed

text \<open>
  Claim C9. \<^verbatim>\<open>sqs_delete_queue\<close> goes by the type of its argument. For a string it makes
  the client's one \<^verbatim>\<open>delete_queue\<close> request for that URL: its outcome is the client's
  answer and the service is in the state that request has left. For a set it makes the
  client's \<^verbatim>\<open>delete_queue\<close> request for one URL after the other, each on the state the
  one before it has left: when all are accepted it returns the dictionary that maps each URL
  of the set to the answer of its own request, and when one is refused it raises the
  exception of that request after the ones before it have taken effect. For an argument
  that is neither a string nor a set it raises \<^verbatim>\<open>TypeError\<close> and the world is as before:
  nothing was sent.
\<close>

theorem sqs_delete_queue_by_argument:
  "(client DeleteQueue [(''QueueUrl'', PStr url)] (backend w) = (answer, s') \<longrightarrow>
      sqs_delete_queue client (PStr url) w =
        (answer,
         w\<lparr>backend := s',
           calls := calls w @ [(DeleteQueue, [(''QueueUrl'', PStr url)], answer)]\<rparr>))
   \<and> (distinct urls
       \<and> requests client (map (\<lambda>u. (DeleteQueue, [(''QueueUrl'', PStr u)])) urls) (backend w)
           = (entries, s'') \<longrightarrow>
      sqs_delete_queue client (PSet urls) w =
        ((case refusal entries of
            None \<Rightarrow> Inr (zip urls (map PDict (answers entries)))
          | Some e \<Rightarrow> Inl e),
         w\<lparr>backend := s'', calls := calls w @ entries\<rparr>))
   \<and> ((\<forall>s. v \<noteq> PStr s) \<and> (\<forall>us. v \<noteq> PSet us) \<longrightarrow>
        sqs_delete_queue client v w = (Inl TypeError, w))"
proof (intro conjI impI)
  assume "client DeleteQueue [(''QueueUrl'', PStr url)] (backend w) = (answer, s')"
  then show "sqs_delete_queue client (PStr url) w =
        (answer,
         w\<lparr>backend := s',
           calls := calls w @ [(DeleteQueue, [(''QueueUrl'', PStr url)], answer)]\<rparr>)"
    by (simp add: call_def)
next
  assume a: "distinct urls
       \<and> requests client (map (\<lambda>u. (DeleteQueue, [(''QueueUrl'', PStr u)])) urls) (backend w)
           = (entries, s'')"
  have "set urls \<inter> fst ` set ([] :: pydict) = {}" by simp
  from delete_each_requests[OF conjunct1[OF a] this conjunct2[OF a]]
  show "sqs_delete_queue client (PSet urls) w =
        ((case refusal entries of
            None \<Rightarrow> Inr (zip urls (map PDict (answers entries)))
          | Some e \<Rightarrow> Inl e),
         w\<lparr>backend := s'', calls := calls w @ entries\<rparr>)"
    by (simp cong: option.case_cong)
next
  assume "(\<forall>s. v \<noteq> PStr s) \<and> (\<forall>us. v \<noteq> PSet us)"
  then show "sqs_delete_queue client v w = (Inl TypeError, w)"
    by (cases v) auto
qed

text \<open>With the in-memory service and its two queues \<^verbatim>\<open>a\<close> and \<^verbatim>\<open>b\<close>: the string, the
  set of both, the same set with a URL of no queue between them, and a number.\<close>

theorem sqs_delete_queue_by_argument_witness:
  "sqs_delete_queue mem_service (PStr (url_of ''a'')) two_queues =
     (Inr [],
      two_queues\<lparr>backend := snd (mem_delete_queue [(''QueueUrl'', PStr (url_of ''a''))]
                                   (backend two_queues)),
        calls := calls two_queues @
          [(DeleteQueue, [(''QueueUrl'', PStr (url_of ''a''))], Inr [])]\<rparr>)
   \<and> fst (sqs_delete_queue mem_service (PSet [url_of ''a'', url_of ''b'']) two_queues)
       = Inr [(url_of ''a'', PDict []), (url_of ''b'', PDict [])]
   \<and> m_queues (backend (snd
         (sqs_delete_queue mem_service (PSet [url_of ''a'', url_of ''b'']) two_queues))) = []
   \<and> fst (sqs_delete_queue mem_service (PSet [url_of ''a'', url_of ''c'', url_of ''b''])
            two_queues)
       = Inl (BotoError ''NonExistentQueue'')
   \<and> map q_name (m_queues (backend (snd
         (sqs_delete_queue mem_service (PSet [url_of ''a'', url_of ''c'', url_of ''b''])
            two_queues)))) = [''b'']
   \<and> sqs_delete_queue mem_service (PInt 3) two_queues = (Inl TypeError, two_queues)"
proof -
  let ?ab = "[url_of ''a'', url_of ''b'']"
  let ?acb = "[url_of ''a'', url_of ''c'', url_of ''b'']"
  let ?reqs = "map (\<lambda>u. (DeleteQueue, [(''QueueUrl'', PStr u)]))"
  define S0 where "S0 = snd (mem_delete_queue [(''QueueUrl'', PStr (url_of ''a''))]
                               (backend two_queues))"
  define E1 where "E1 = fst (requests mem_service (?reqs ?ab) (backend two_queues))"
  define S1 where "S1 = snd (requests mem_service (?reqs ?ab) (backend two_queues))"
  define E2 where "E2 = fst (requests mem_service (?reqs ?acb) (backend two_queues))"
  define S2 where "S2 = snd (requests mem_service (?reqs ?acb) (backend two_queues))"
  have one: "mem_service DeleteQueue [(''QueueUrl'', PStr (url_of ''a''))] (backend two_queues)
     = (Inr [], S0)"
    unfolding S0_def by code_simp
  have d1: "distinct ?ab" by (simp add: url_of_def)
  have d2: "distinct ?acb" by (simp add: url_of_def)
  have r1: "requests mem_service (?reqs ?ab) (backend two_queues) = (E1, S1)"
    by (simp add: E1_def S1_def)
  have r2: "requests mem_service (?reqs ?acb) (backend two_queues) = (E2, S2)"
    by (simp add: E2_def S2_def)
  have n: "(\<forall>s. PInt 3 \<noteq> PStr s) \<and> (\<forall>us. PInt 3 \<noteq> PSet us)"
    by simp
  have v1: "(case refusal E1 of
            None \<Rightarrow> Inr (zip ?ab (map PDict (answers E1)))
          | Some e \<Rightarrow> Inl e) = Inr [(url_of ''a'', PDict []), (url_of ''b'', PDict [])]"
    unfolding E1_def by code_simp
  have s1: "m_queues S1 = []"
    unfolding S1_def by code_simp
  have v2: "(case refusal E2 of
            None \<Rightarrow> Inr (zip ?acb (map PDict (answers E2)))
          | Some e \<Rightarrow> Inl e) = Inl (BotoError ''NonExistentQueue'')"
    unfolding E2_def by code_simp
  have s2: "map q_name (m_queues S2) = [''b'']"
    unfolding S2_def by code_simp
  note t1 = sqs_delete_queue_by_argument[where client = mem_service and w = two_queues
      and url = "url_of ''a''" and answer = "Inr []" and s' = S0
      and urls = ?ab and entries = E1 and s'' = S1 and v = "PInt 3"]
  note t2 = sqs_delete_queue_by_argument[where client = mem_service and w = two_queues
      and url = "url_of ''a''" and answer = "Inr []" and s' = S0
      and urls = ?acb and entries = E2 and s'' = S2 and v = "PInt 3"]
  from t1 one have a: "sqs_delete_queue mem_service (PStr (url_of ''a'')) two_queues =
     (Inr [],
      two_queues\<lparr>backend := S0,
        calls := calls two_queues @
          [(DeleteQueue, [(''QueueUrl'', PStr (url_of ''a''))], Inr [])]\<rparr>)"
    by blast
  from t1 d1 r1 have b: "sqs_delete_queue mem_service (PSet ?ab) two_queues =
        ((case refusal E1 of
            None \<Rightarrow> Inr (zip ?ab (map PDict (answers E1)))
          | Some e \<Rightarrow> Inl e),
         two_queues\<lparr>backend := S1, calls := calls two_queues @ E1\<rparr>)"
    by blast
  from t2 d2 r2 have c: "sqs_delete_queue mem_service (PSet ?acb) two_queues =
        ((case refusal E2 of
            None \<Rightarrow> Inr (zip ?acb (map PDict (answers E2)))
          | Some e \<Rightarrow> Inl e),
         two_queues\<lparr>backend := S2, calls := calls two_queues @ E2\<rparr>)"
    by blast
  from t1 n have e: "sqs_delete_queue mem_service (PInt 3) two_queues = (Inl TypeError, two_queues)"
    by blast
  have b1: "fst (sqs_delete_queue mem_service (PSet ?ab) two_queues)
       = Inr [(url_of ''a'', PDict []), (url_of ''b'', PDict [])]"
    by (simp only: b fst_conv v1)
  have b2: "m_queues (backend (snd (sqs_delete_queue mem_service (PSet ?ab) two_queues))) = []"
    by (simp only: b snd_conv) (simp add: s1)
  have c1: "fst (sqs_delete_queue mem_service (PSet ?acb) two_queues)
       = Inl (BotoError ''NonExistentQueue'')"
    by (simp only: c fst_conv v2)
  have c2: "map q_name (m_queues (backend (snd
         (sqs_delete_queue mem_service (PSet ?acb) two_queues)))) = [''b'']"
    by (simp only: c snd_conv) (simp add: s2)
  from a[unfolded S0_def] b1 b2 c1 c2 e show ?thesis
    by blast
qed

section \<open>The queue with a redrive policy\<close>

lemma serialisable_policy [simp]:
  "serialisable (redrive_policy dep_arn) = serialisable dep_arn"
  by (simp add: redrive_policy_def)

text \<open>
  Claim C10, as amended. For a target ARN that \<^verbatim>\<open>json.dumps\<close> can write, which every
  string is, \<^verbatim>\<open>sqs_create_queue_dead_dependency\<close> makes the client's one
  \<^verbatim>\<open>create_queue\<close> request whose attributes are the five fixed ones (DelaySeconds 0,
  MaximumMessageSize 262144, VisibilityTimeout 30, MessageRetentionPeriod 345680,
  ReceiveMessageWaitTimeSeconds 0) and the JSON text of a redrive policy with the given
  target ARN and maxReceiveCount 3, and its outcome is the client's answer. Only the target
  ARN and the queue's name come from the caller. For a target ARN that \<^verbatim>\<open>json.dumps\<close>
  cannot write, one that holds a set, it raises \<^verbatim>\<open>TypeError\<close> and sends nothing.
\<close>

theorem dead_dependency_request_is_fixed:
  "(serialisable dep_arn \<and>
    client CreateQueue
       [(''QueueName'', if name = PNone then PStr ''main_queue'' else name),
        (''Attributes'', PDict
           [(''DelaySeconds'', PStr ''0''),
            (''MaximumMessageSize'', PStr ''262144''),
            (''VisibilityTimeout'', PStr ''30''),
            (''MessageRetentionPeriod'', PStr ''345680''),
            (''ReceiveMessageWaitTimeSeconds'', PStr ''0''),
            (''RedrivePolicy'', PStr (json_text
               (PDict [(''deadLetterTargetArn'', dep_arn), (''maxReceiveCount'', PInt 3)])))])]
       (backend w) = (answer, s') \<longrightarrow>
    sqs_create_queue_dead_dependency client dep_arn name w =
      (answer,
       w\<lparr>backend := s',
         calls := calls w @
           [(CreateQueue,
             [(''QueueName'', if name = PNone then PStr ''main_queue'' else name),
              (''Attributes'', PDict
                 [(''DelaySeconds'', PStr ''0''),
                  (''MaximumMessageSize'', PStr ''262144''),
                  (''VisibilityTimeout'', PStr ''30''),
                  (''MessageRetentionPeriod'', PStr ''345680''),
                  (''ReceiveMessageWaitTimeSeconds'', PStr ''0''),
                  (''RedrivePolicy'', PStr (json_text
                     (PDict [(''deadLetterTargetArn'', dep_arn),
                             (''maxReceiveCount'', PInt 3)])))])],
             answer)]\<rparr>))
   \<and> (\<not> serialisable dep_arn \<longrightarrow>
        sqs_create_queue_dead_dependency client dep_arn name w = (Inl TypeError, w))"
  by (simp add: sqs_create_queue_dead_dependency_def and_then_def returns_def json_dumps_def
      redrive_policy_def name_or_def QUEUE_MAIN_def call_def)

text \<open>With the in-memory service: the queue \<^verbatim>\<open>main\<close> is created with the six attributes,
  the last of them the text of the policy.\<close>

lemma policy_text:
  "json_text (PDict [(''deadLetterTargetArn'', PStr ''arn:aws:sqs:dead''),
                     (''maxReceiveCount'', PInt 3)])
     = ''{'' @ quoted ''deadLetterTargetArn'' @ '': '' @ quoted ''arn:aws:sqs:dead'' @ '', ''
         @ quoted ''maxReceiveCount'' @ '': 3}''"
  by code_simp

theorem dead_dependency_request_is_fixed_witness:
  "serialisable (PStr (arn_of ''dead''))
   \<and> fst (sqs_create_queue_dead_dependency mem_service (PStr (arn_of ''dead'')) (PStr ''main'')
            dead_queue_only) = Inr [(''QueueUrl'', PStr (url_of ''main''))]
   \<and> map q_attrs (m_queues (backend (snd
        (sqs_create_queue_dead_dependency mem_service (PStr (arn_of ''dead'')) (PStr ''main'')
            dead_queue_only))))
       = [[],
          [(''DelaySeconds'', PStr ''0''),
           (''MaximumMessageSize'', PStr ''262144''),
           (''VisibilityTimeout'', PStr ''30''),
           (''MessageRetentionPeriod'', PStr ''345680''),
           (''ReceiveMessageWaitTimeSeconds'', PStr ''0''),
           (''RedrivePolicy'', PStr (''{'' @ quoted ''deadLetterTargetArn'' @ '': ''
               @ quoted ''arn:aws:sqs:dead'' @ '', '' @ quoted ''maxReceiveCount'' @ '': 3}''))]]
   \<and> sqs_create_queue_dead_dependency mem_service (PList [PSet [''dead'']]) (PStr ''main'')
        dead_queue_only = (Inl TypeError, dead_queue_only)"
proof -
  let ?kw = "[(''QueueName'', if PStr ''main'' = PNone then PStr ''main_queue'' else PStr ''main''),
        (''Attributes'', PDict
           [(''DelaySeconds'', PStr ''0''),
            (''MaximumMessageSize'', PStr ''262144''),
            (''VisibilityTimeout'', PStr ''30''),
            (''MessageRetentionPeriod'', PStr ''345680''),
            (''ReceiveMessageWaitTimeSeconds'', PStr ''0''),
            (''RedrivePolicy'', PStr (json_text
               (PDict [(''deadLetterTargetArn'', PStr (arn_of ''dead'')),
                       (''maxReceiveCount'', PInt 3)])))])]"
  define A where "A = fst (mem_service CreateQueue ?kw (backend dead_queue_only))"
  define S where "S = snd (mem_service CreateQueue ?kw (backend dead_queue_only))"
  have s: "serialisable (PStr (arn_of ''dead''))" by simp
  have c: "mem_service CreateQueue ?kw (backend dead_queue_only) = (A, S)"
    by (simp add: A_def S_def)
  have a: "A = Inr [(''QueueUrl'', PStr (url_of ''main''))]"
    unfolding A_def by code_simp
  have q: "map q_attrs (m_queues S)
       = [[],
          [(''DelaySeconds'', PStr ''0''),
           (''MaximumMessageSize'', PStr ''262144''),
           (''VisibilityTimeout'', PStr ''30''),
           (''MessageRetentionPeriod'', PStr ''345680''),
           (''ReceiveMessageWaitTimeSeconds'', PStr ''0''),
           (''RedrivePolicy'', PStr (''{'' @ quoted ''deadLetterTargetArn'' @ '': ''
               @ quoted ''arn:aws:sqs:dead'' @ '', '' @ quoted ''maxReceiveCount'' @ '': 3}''))]]"
    unfolding S_def by code_simp
  have n: "\<not> serialisable (PList [PSet [''dead'']])" by simp
  note t1 = dead_dependency_request_is_fixed[where client = mem_service and w = dead_queue_only
      and dep_arn = "PStr (arn_of ''dead'')" and name = "PStr ''main''"
      and answer = A and s' = S]
  note t2 = dead_dependency_request_is_fixed[where client = mem_service and w = dead_queue_only
      and dep_arn = "PList [PSet [''dead'']]" and name = "PStr ''main''"]
  from t1 s c have e: "sqs_create_queue_dead_dependency mem_service (PStr (arn_of ''dead''))
      (PStr ''main'') dead_queue_only =
      (A, dead_queue_only\<lparr>backend := S,
            calls := calls dead_queue_only @ [(CreateQueue, ?kw, A)]\<rparr>)"
    by blast
  from t2 n have f: "sqs_create_queue_dead_dependency mem_service (PList [PSet [''dead'']])
      (PStr ''main'') dead_queue_only = (Inl TypeError, dead_queue_only)"
    by blast
  have e1: "fst (sqs_create_queue_dead_dependency mem_service (PStr (arn_of ''dead''))
      (PStr ''main'') dead_queue_only) = Inr [(''QueueUrl'', PStr (url_of ''main''))]"
    by (simp only: e fst_conv a)
  have e2: "map q_attrs (m_queues (backend (snd
        (sqs_create_queue_dead_dependency mem_service (PStr (arn_of ''dead'')) (PStr ''main'')
            dead_queue_only))))
       = [[],
          [(''DelaySeconds'', PStr ''0''),
           (''MaximumMessageSize'', PStr ''262144''),
           (''VisibilityTimeout'', PStr ''30''),
           (''MessageRetentionPeriod'', PStr ''345680''),
           (''ReceiveMessageWaitTimeSeconds'', PStr ''0''),
           (''RedrivePolicy'', PStr (''{'' @ quoted ''deadLetterTargetArn'' @ '': ''
               @ quoted ''arn:aws:sqs:dead'' @ '', '' @ quoted ''maxReceiveCount'' @ '': 3}''))]]"
    by (simp only: e snd_conv) (simp add: q)
  from s e1 e2 f show ?thesis
    by blast
qed

text \<open>For a target that is a set, no policy is built and no request is made.\<close>

theorem no_policy_for_a_set_counterexample:
  "sqs_create_queue_dead_dependency mem_service (PSet [''arn:aws:sqs:dead'']) PNone start
     = (Inl TypeError, start)
   \<and> calls start = []"
  by code_simp
section \<open>Sending a batch\<close>

text \<open>
  Claim C3, as amended. \<^verbatim>\<open>send_batch_messages\<close> hands the whole list to the service in
  one \<^verbatim>\<open>send_message_batch\<close> request and its outcome is the answer to that request,
  unchanged: the report by entry (the stored entries and the failed ones, each under its
  \<^verbatim>\<open>Id\<close>) when the service gives one, and the exception when the service refuses the
  request as a whole. The function looks at no entry itself.
\<close>

theorem send_batch_messages_returns_the_answer:
  "client SendMessageBatch [(''QueueUrl'', url), (''Entries'', msgs)] (backend w) = (answer, s')
   \<Longrightarrow> send_batch_messages client url msgs w =
         (answer,
          w\<lparr>backend := s',
            calls := calls w @
              [(SendMessageBatch, [(''QueueUrl'', url), (''Entries'', msgs)], answer)]\<rparr>)"
  by (simp add: send_batch_messages_def call_def)

text \<open>With the in-memory service: of three entries, the one with an unacceptable body is
  reported as failed and the other two as stored.\<close>

theorem send_batch_messages_returns_the_answer_witness:
  "mem_service SendMessageBatch [(''QueueUrl'', Q), (''Entries'', three_entries)]
       (backend one_queue)
     = (Inr [(''Successful'', PList
               [PDict [(''Id'', PStr ''e1''), (''MessageId'', PStr (mk_id 0))],
                PDict [(''Id'', PStr ''e3''), (''MessageId'', PStr (mk_id 1))]]),
             (''Failed'', PList
               [PDict [(''Id'', PStr ''e2''), (''SenderFault'', PBool True),
                       (''Code'', PStr ''InvalidMessageContents'')]])],
        snd (mem_service SendMessageBatch [(''QueueUrl'', Q), (''Entries'', three_entries)]
               (backend one_queue)))
   \<and> fst (send_batch_messages mem_service Q three_entries one_queue)
     = Inr [(''Successful'', PList
               [PDict [(''Id'', PStr ''e1''), (''MessageId'', PStr (mk_id 0))],
                PDict [(''Id'', PStr ''e3''), (''MessageId'', PStr (mk_id 1))]]),
             (''Failed'', PList
               [PDict [(''Id'', PStr ''e2''), (''SenderFault'', PBool True),
                       (''Code'', PStr ''InvalidMessageContents'')]])]"
proof -
  have a: "fst (mem_service SendMessageBatch [(''QueueUrl'', Q), (''Entries'', three_entries)]
       (backend one_queue))
     = Inr [(''Successful'', PList
               [PDict [(''Id'', PStr ''e1''), (''MessageId'', PStr (mk_id 0))],
                PDict [(''Id'', PStr ''e3''), (''MessageId'', PStr (mk_id 1))]]),
             (''Failed'', PList
               [PDict [(''Id'', PStr ''e2''), (''SenderFault'', PBool True),
                       (''Code'', PStr ''InvalidMessageContents'')]])]"
    by code_simp
  note e = pair_of_fst[OF a]
  from send_batch_messages_returns_the_answer[where w = one_queue and client = mem_service, OF e] e
  show ?thesis
    by simp
qed

text \<open>But of two entries, one of them without a body, neither is reported: the service
  refuses the request and the exception leaves the function.\<close>

theorem whole_batch_refused_counterexample:
  "fst (send_batch_messages mem_service Q two_entries_one_without_body one_queue)
     = Inl (BotoError ''ParamValidationError'')"
  by code_simp

section \<open>Changing the visibility of a delivery\<close>

text \<open>
  Claim C5, as amended. \<^verbatim>\<open>change_message_visibility_timeout\<close> checks nothing itself: it
  sends one \<^verbatim>\<open>change_message_visibility\<close> request with the URL, the receipt and the timeout
  it was given, and its outcome is the answer to that request. So it fails exactly when the
  service refuses, and with the exception of the service.
\<close>

theorem change_visibility_outcome_is_the_services:
  "client ChangeMessageVisibility
     [(''QueueUrl'', url), (''ReceiptHandle'', receipt), (''VisibilityTimeout'', timeout)]
     (backend w) = (answer, s')
   \<Longrightarrow> change_message_visibility_timeout client url receipt timeout w =
         (answer,
          w\<lparr>backend := s',
            calls := calls w @
              [(ChangeMessageVisibility,
                [(''QueueUrl'', url), (''ReceiptHandle'', receipt),
                 (''VisibilityTimeout'', timeout)], answer)]\<rparr>)"
  by (simp add: change_message_visibility_timeout_def call_def)

theorem change_visibility_outcome_is_the_services_witness:
  "mem_service ChangeMessageVisibility
     [(''QueueUrl'', Q), (''ReceiptHandle'', PStr (mk_receipt 1)), (''VisibilityTimeout'', PInt 5)]
     (backend expired) = (Inl (BotoError ''MessageNotAvailable''), backend expired)
   \<and> change_message_visibility_timeout mem_service Q (PStr (mk_receipt 1)) (PInt 5) expired =
       (Inl (BotoError ''MessageNotAvailable''),
        expired\<lparr>backend := backend expired,
          calls := calls expired @
            [(ChangeMessageVisibility,
              [(''QueueUrl'', Q), (''ReceiptHandle'', PStr (mk_receipt 1)),
               (''VisibilityTimeout'', PInt 5)], Inl (BotoError ''MessageNotAvailable''))]\<rparr>)"
proof -
  have a: "mem_service ChangeMessageVisibility
     [(''QueueUrl'', Q), (''ReceiptHandle'', PStr (mk_receipt 1)), (''VisibilityTimeout'', PInt 5)]
     (backend expired) = (Inl (BotoError ''MessageNotAvailable''), backend expired)"
    by code_simp
  from change_visibility_outcome_is_the_services[where w = expired and client = mem_service, OF a] a
  show ?thesis
    by blast
qed

text \<open>With the in-memory service, a receipt that was good while its message was in flight
  gets, once the visibility has run out, the very answer a receipt nobody issued gets.\<close>

theorem expired_like_unknown_counterexample:
  "fst (change_message_visibility_timeout mem_service Q (PStr (mk_receipt 1)) (PInt 5) received)
     = Inr []
   \<and> fst (change_message_visibility_timeout mem_service Q (PStr (mk_receipt 1)) (PInt 5) expired)
     = Inl (BotoError ''MessageNotAvailable'')
   \<and> fst (change_message_visibility_timeout mem_service Q (PStr ''unknown'') (PInt 5) expired)
     = Inl (BotoError ''MessageNotAvailable'')"
proof (intro conjI)
  show "fst (change_message_visibility_timeout mem_service Q (PStr (mk_receipt 1)) (PInt 5) received)
     = Inr []" by code_simp
  show "fst (change_message_visibility_timeout mem_service Q (PStr (mk_receipt 1)) (PInt 5) expired)
     = Inl (BotoError ''MessageNotAvailable'')" by code_simp
  show "fst (change_message_visibility_timeout mem_service Q (PStr ''unknown'') (PInt 5) expired)
     = Inl (BotoError ''MessageNotAvailable'')" by code_simp
qed


text \<open>
  Claim C4, as amended. \<^verbatim>\<open>change_message_visibility_timeout\<close> holds no deadline and no
  window of a message. Called for a delivery with one timeout and, some time after that
  call was accepted, with another, it makes two requests of the client: the first carries
  the first timeout, the second carries the second timeout as it was given, with nothing of
  the first in it, and goes to the state the service is in by then. The outcome of the
  second call is the client's answer to the second request, and what has become of the
  deadline is what the service made of the two requests.
\<close>

theorem two_visibility_changes_are_two_requests:
  assumes "client ChangeMessageVisibility
             [(''QueueUrl'', url), (''ReceiptHandle'', receipt), (''VisibilityTimeout'', first)]
             (backend w) = (Inr ack, s1)"
    and "client ChangeMessageVisibility
             [(''QueueUrl'', url), (''ReceiptHandle'', receipt), (''VisibilityTimeout'', second)]
             (elapse s1) = (answer, s2)"
  shows "and_then (change_message_visibility_timeout client url receipt first) (\<lambda>_.
         and_then (meanwhile elapse) (\<lambda>_.
           change_message_visibility_timeout client url receipt second)) w =
         (answer,
          w\<lparr>backend := s2,
            calls := calls w @
              [(ChangeMessageVisibility,
                [(''QueueUrl'', url), (''ReceiptHandle'', receipt),
                 (''VisibilityTimeout'', first)], Inr ack),
               (ChangeMessageVisibility,
                [(''QueueUrl'', url), (''ReceiptHandle'', receipt),
                 (''VisibilityTimeout'', second)], answer)]\<rparr>)"
  using assms
  by (simp add: change_message_visibility_timeout_def and_then_def meanwhile_def call_def)

text \<open>With the in-memory service, which sets the deadline of a delivery to the given
  seconds from the time of the request: 5 seconds at time 0 and 20 seconds at time 3 leave
  the deadline at 23.\<close>

theorem two_visibility_changes_are_two_requests_witness:
  "mem_service ChangeMessageVisibility
     [(''QueueUrl'', Q), (''ReceiptHandle'', PStr (mk_receipt 1)), (''VisibilityTimeout'', PInt 5)]
     (backend received)
     = (Inr [], backend (snd (change_message_visibility_timeout mem_service Q
                               (PStr (mk_receipt 1)) (PInt 5) received)))
   \<and> fst (and_then (change_message_visibility_timeout mem_service Q (PStr (mk_receipt 1)) (PInt 5))
        (\<lambda>_. and_then (meanwhile (advance 3))
        (\<lambda>_. change_message_visibility_timeout mem_service Q (PStr (mk_receipt 1)) (PInt 20)))
        received) = Inr []
   \<and> mem_now (backend (snd
       (and_then (change_message_visibility_timeout mem_service Q (PStr (mk_receipt 1)) (PInt 5))
        (\<lambda>_. and_then (meanwhile (advance 3))
        (\<lambda>_. change_message_visibility_timeout mem_service Q (PStr (mk_receipt 1)) (PInt 20)))
        received))) = 3
   \<and> mem_deadline (backend (snd
       (and_then (change_message_visibility_timeout mem_service Q (PStr (mk_receipt 1)) (PInt 5))
        (\<lambda>_. and_then (meanwhile (advance 3))
        (\<lambda>_. change_message_visibility_timeout mem_service Q (PStr (mk_receipt 1)) (PInt 20)))
        received))) Q (PStr (mk_receipt 1)) = Some 23"
proof -
  let ?kw = "\<lambda>t. [(''QueueUrl'', Q), (''ReceiptHandle'', PStr (mk_receipt 1)),
                   (''VisibilityTimeout'', PInt t)]"
  define S1 where "S1 = snd (mem_service ChangeMessageVisibility (?kw 5) (backend received))"
  define S2 where "S2 = snd (mem_service ChangeMessageVisibility (?kw 20) (advance 3 S1))"
  have a: "mem_service ChangeMessageVisibility (?kw 5) (backend received) = (Inr [], S1)"
    unfolding S1_def by code_simp
  have b: "mem_service ChangeMessageVisibility (?kw 20) (advance 3 S1) = (Inr [], S2)"
    unfolding S2_def S1_def by code_simp
  have s: "backend (snd (change_message_visibility_timeout mem_service Q
                               (PStr (mk_receipt 1)) (PInt 5) received)) = S1"
    by (simp add: change_message_visibility_timeout_def call_unfold S1_def)
  have n: "mem_now S2 = 3"
    unfolding S2_def S1_def by code_simp
  have d: "mem_deadline S2 Q (PStr (mk_receipt 1)) = Some 23"
    unfolding S2_def S1_def by code_simp
  note t = two_visibility_changes_are_two_requests[where client = mem_service and w = received
      and elapse = "advance 3", OF a b]
  have t1: "fst (and_then
        (change_message_visibility_timeout mem_service Q (PStr (mk_receipt 1)) (PInt 5))
        (\<lambda>_. and_then (meanwhile (advance 3))
        (\<lambda>_. change_message_visibility_timeout mem_service Q (PStr (mk_receipt 1)) (PInt 20)))
        received) = Inr []"
    by (simp only: t fst_conv)
  have t2: "backend (snd (and_then
        (change_message_visibility_timeout mem_service Q (PStr (mk_receipt 1)) (PInt 5))
        (\<lambda>_. and_then (meanwhile (advance 3))
        (\<lambda>_. change_message_visibility_timeout mem_service Q (PStr (mk_receipt 1)) (PInt 20)))
        received)) = S2"
    by (simp only: t snd_conv) simp
  show ?thesis
    by (simp only: t1 t2 n d s a)
qed

text \<open>With the service that adds the seconds to the deadline a delivery has, the same two
  calls, both accepted, leave the deadline at 30 + 5 + 20 = 55, where replacing it gives
  3 + 20 = 23.\<close>

theorem stacked_deadline_counterexample:
  "fst (change_message_visibility_timeout stacking_service Q (PStr (mk_receipt 1)) (PInt 5)
          received) = Inr []
   \<and> fst (and_then
        (change_message_visibility_timeout stacking_service Q (PStr (mk_receipt 1)) (PInt 5))
        (\<lambda>_. and_then (meanwhile (advance 3))
        (\<lambda>_. change_message_visibility_timeout stacking_service Q (PStr (mk_receipt 1))
               (PInt 20)))
        received) = Inr []
   \<and> mem_now (backend (snd (and_then
        (change_message_visibility_timeout stacking_service Q (PStr (mk_receipt 1)) (PInt 5))
        (\<lambda>_. and_then (meanwhile (advance 3))
        (\<lambda>_. change_message_visibility_timeout stacking_service Q (PStr (mk_receipt 1))
               (PInt 20)))
        received))) = 3
   \<and> mem_deadline (backend (snd (and_then
        (change_message_visibility_timeout stacking_service Q (PStr (mk_receipt 1)) (PInt 5))
        (\<lambda>_. and_then (meanwhile (advance 3))
        (\<lambda>_. change_message_visibility_timeout stacking_service Q (PStr (mk_receipt 1))
               (PInt 20)))
        received))) Q (PStr (mk_receipt 1)) = Some 55"
proof (intro conjI)
  show "fst (change_message_visibility_timeout stacking_service Q (PStr (mk_receipt 1)) (PInt 5)
          received) = Inr []"
    by code_simp
  show "fst (and_then
        (change_message_visibility_timeout stacking_service Q (PStr (mk_receipt 1)) (PInt 5))
        (\<lambda>_. and_then (meanwhile (advance 3))
        (\<lambda>_. change_message_visibility_timeout stacking_service Q (PStr (mk_receipt 1))
               (PInt 20)))
        received) = Inr []"
    by code_simp
  show "mem_now (backend (snd (and_then
        (change_message_visibility_timeout stacking_service Q (PStr (mk_receipt 1)) (PInt 5))
        (\<lambda>_. and_then (meanwhile (advance 3))
        (\<lambda>_. change_message_visibility_timeout stacking_service Q (PStr (mk_receipt 1))
               (PInt 20)))
        received))) = 3"
    by code_simp
  show "mem_deadline (backend (snd (and_then
        (change_message_visibility_timeout stacking_service Q (PStr (mk_receipt 1)) (PInt 5))
        (\<lambda>_. and_then (meanwhile (advance 3))
        (\<lambda>_. change_message_visibility_timeout stacking_service Q (PStr (mk_receipt 1))
               (PInt 20)))
        received))) Q (PStr (mk_receipt 1)) = Some 55"
    by code_simp
qed

section \<open>Processing a queue\<close>

lemma requests_all_sent:
  "requests c reqs s = (entries, s') \<Longrightarrow> refusal entries = None \<Longrightarrow>
   map (\<lambda>entry. (fst entry, fst (snd entry))) entries = reqs"
proof (induction reqs arbitrary: s entries s')
  case Nil
  then show ?case by simp
next
  case (Cons req reqs)
  obtain m kw where req: "req = (m, kw)" by (cases req)
  obtain r s1 where c: "c m kw s = (r, s1)" by (cases "c m kw s")
  show ?case
  proof (cases r)
    case (Inl e)
    with Cons.prems c req show ?thesis by auto
  next
    case (Inr a)
    obtain rest s2 where r: "requests c reqs s1 = (rest, s2)"
      by (cases "requests c reqs s1")
    with Cons.prems c req Inr have e: "entries = (m, kw, Inr a) # rest" "refusal rest = None"
      by auto
    from Cons.IH[OF r e(2)] e(1) req show ?thesis by simp
  qed
qed

lemma len_iter:
  "py_len v = Inr n \<Longrightarrow> \<exists>items. py_iter v = Inr items \<and> length items = n"
  by (cases v) auto

lemma process_message_run:
  assumes "process_message client url message w = (Inr u, w')"
  shows "\<exists>message_id body receipt a.
           subscript message ''MessageId'' = Inr message_id
         \<and> subscript message ''Body'' = Inr body
         \<and> subscript message ''ReceiptHandle'' = Inr receipt
         \<and> client DeleteMessage [(''QueueUrl'', url), (''ReceiptHandle'', receipt)] (backend w)
             = (Inr a, backend w')
         \<and> calls w' = calls w @
              [(DeleteMessage, [(''QueueUrl'', url), (''ReceiptHandle'', receipt)], Inr a)]
         \<and> stdout w' = stdout w @ [processing_line message_id body]"
  using assms
  by (auto simp: process_message_def and_then_def returns_def print_def
      delete_message_from_queue_def call_def
      split: sum.splits prod.splits)

lemma process_messages_run:
  "process_messages client url messages w = (Inr u, w') \<Longrightarrow>
   \<exists>ids bodies receipts entries.
       map (\<lambda>m. subscript m ''MessageId'') messages = map Inr ids
     \<and> map (\<lambda>m. subscript m ''Body'') messages = map Inr bodies
     \<and> map (\<lambda>m. subscript m ''ReceiptHandle'') messages = map Inr receipts
     \<and> requests client
         (map (\<lambda>r. (DeleteMessage, [(''QueueUrl'', url), (''ReceiptHandle'', r)])) receipts)
         (backend w) = (entries, backend w')
     \<and> refusal entries = None
     \<and> calls w' = calls w @ entries
     \<and> stdout w' = stdout w @ map (\<lambda>(i, b). processing_line i b) (zip ids bodies)"
proof (induction messages arbitrary: w)
  case Nil
  then show ?case by simp
next
  case (Cons m ms)
  obtain r1 w1 where p: "process_message client url m w = (r1, w1)"
    by (cases "process_message client url m w")
  with Cons.prems obtain u1 where r1: "r1 = Inr u1"
    by (cases r1) auto
  from p r1 Cons.prems have rest: "process_messages client url ms w1 = (Inr u, w')"
    by simp
  from process_message_run[OF p[unfolded r1]] obtain i b receipt a where
    f: "subscript m ''MessageId'' = Inr i"
       "subscript m ''Body'' = Inr b"
       "subscript m ''ReceiptHandle'' = Inr receipt"
       "client DeleteMessage [(''QueueUrl'', url), (''ReceiptHandle'', receipt)] (backend w)
             = (Inr a, backend w1)"
       "calls w1 = calls w @
              [(DeleteMessage, [(''QueueUrl'', url), (''ReceiptHandle'', receipt)], Inr a)]"
       "stdout w1 = stdout w @ [processing_line i b]"
    by blast
  from Cons.IH[OF rest] obtain ids bodies receipts entries where
    g: "map (\<lambda>m. subscript m ''MessageId'') ms = map Inr ids"
       "map (\<lambda>m. subscript m ''Body'') ms = map Inr bodies"
       "map (\<lambda>m. subscript m ''ReceiptHandle'') ms = map Inr receipts"
       "requests client
         (map (\<lambda>r. (DeleteMessage, [(''QueueUrl'', url), (''ReceiptHandle'', r)])) receipts)
         (backend w1) = (entries, backend w')"
       "refusal entries = None"
       "calls w' = calls w1 @ entries"
       "stdout w' = stdout w1 @ map (\<lambda>(i, b). processing_line i b) (zip ids bodies)"
    by blast
  show ?case
    apply (rule exI[of _ "i # ids"], rule exI[of _ "b # bodies"])
    apply (rule exI[of _ "receipt # receipts"])
    apply (rule exI[of _ "(DeleteMessage, [(''QueueUrl'', url), (''ReceiptHandle'', receipt)],
                           Inr a) # entries"])
    apply (simp add: f g)
    done
qed

text \<open>
  Claim C1, as amended. \<^verbatim>\<open>process_queue\<close> takes no processing function and asks about the
  outcome of nothing. Whenever it returns, the client has accepted its poll and then, for
  every message in the answer and in the order of the answer, one \<^verbatim>\<open>delete_message\<close>
  request for the URL that was polled with the \<^verbatim>\<open>ReceiptHandle\<close> of that message, each
  request on the state the one before it has left; these are all the requests it has made.
  It has printed, for every one of these messages and in the same order, the line that
  shows its \<^verbatim>\<open>MessageId\<close> and its \<^verbatim>\<open>Body\<close>.
\<close>

theorem process_queue_deletes_every_received_message:
  assumes "process_queue client url w = (Inr u, w')"
  shows "\<exists>objects ids bodies receipts entries.
           fst (client ReceiveMessage
                  [(''QueueUrl'', url), (''MaxNumberOfMessages'', PInt 10)] (backend w))
             = Inr objects
         \<and> map (\<lambda>message. subscript message ''MessageId'') (polled objects) = map Inr ids
         \<and> map (\<lambda>message. subscript message ''Body'') (polled objects) = map Inr bodies
         \<and> map (\<lambda>message. subscript message ''ReceiptHandle'') (polled objects)
             = map Inr receipts
         \<and> requests client
             ((ReceiveMessage, [(''QueueUrl'', url), (''MaxNumberOfMessages'', PInt 10)])
              # map (\<lambda>receipt.
                       (DeleteMessage, [(''QueueUrl'', url), (''ReceiptHandle'', receipt)]))
                  receipts)
             (backend w) = (entries, backend w')
         \<and> map (\<lambda>entry. (fst entry, fst (snd entry))) entries =
             (ReceiveMessage, [(''QueueUrl'', url), (''MaxNumberOfMessages'', PInt 10)])
              # map (\<lambda>receipt.
                       (DeleteMessage, [(''QueueUrl'', url), (''ReceiptHandle'', receipt)]))
                  receipts
         \<and> refusal entries = None
         \<and> calls w' = calls w @ entries
         \<and> stdout w' =
             stdout w @ map (\<lambda>(message_id, body). processing_line message_id body)
                          (zip ids bodies)"
proof -
  let ?kw = "[(''QueueUrl'', url), (''MaxNumberOfMessages'', PInt 10)]"
  let ?del = "\<lambda>receipt. (DeleteMessage, [(''QueueUrl'', url), (''ReceiptHandle'', receipt)])"
  obtain r s1 where c: "client ReceiveMessage ?kw (backend w) = (r, s1)"
    by (cases "client ReceiveMessage ?kw (backend w)")
  define w1 where "w1 = w\<lparr>backend := s1, calls := calls w @ [(ReceiveMessage, ?kw, r)]\<rparr>"
  have poll: "poll_queue client url (PInt 10) w = (r, w1)"
    using c by (simp add: poll_queue_def call_def w1_def)
  with assms obtain objects where r: "r = Inr objects"
    by (cases r) (auto simp: process_queue_def and_then_def)
  have rest: "(case map_of objects ''Messages'' of
         None \<Rightarrow> returns (Inr ())
       | Some messages \<Rightarrow>
           and_then (returns (py_len messages)) (\<lambda>n.
             if n \<noteq> 0
             then and_then (returns (py_iter messages)) (process_messages client url)
             else returns (Inr ()))) w1 = (Inr u, w')"
    using assms poll r by (simp add: process_queue_def and_then_def)
  have run: "process_messages client url (polled objects) w1 = (Inr u, w')"
  proof (cases "map_of objects ''Messages''")
    case None
    with rest show ?thesis by (simp add: polled_def returns_def)
  next
    case (Some messages)
    with rest obtain n where n: "py_len messages = Inr n"
      by (cases "py_len messages") (auto simp: and_then_def returns_def)
    from len_iter[OF n] obtain items where i: "py_iter messages = Inr items" "length items = n"
      by blast
    show ?thesis
    proof (cases "n = 0")
      case True
      with rest Some n i show ?thesis
        by (simp add: polled_def and_then_def returns_def)
    next
      case False
      with rest Some n i show ?thesis
        by (simp add: polled_def and_then_def returns_def)
    qed
  qed
  from process_messages_run[OF run] obtain ids bodies receipts entries where
    g: "map (\<lambda>m. subscript m ''MessageId'') (polled objects) = map Inr ids"
       "map (\<lambda>m. subscript m ''Body'') (polled objects) = map Inr bodies"
       "map (\<lambda>m. subscript m ''ReceiptHandle'') (polled objects) = map Inr receipts"
       "requests client (map ?del receipts) (backend w1) = (entries, backend w')"
       "refusal entries = None"
       "calls w' = calls w1 @ entries"
       "stdout w' = stdout w1 @ map (\<lambda>(i, b). processing_line i b) (zip ids bodies)"
    by blast
  let ?entries = "(ReceiveMessage, ?kw, Inr objects) # entries"
  have q: "requests client ((ReceiveMessage, ?kw) # map ?del receipts) (backend w)
             = (?entries, backend w')"
    using c r g(4) by (simp add: w1_def)
  have n: "refusal ?entries = None"
    using g(5) by simp
  have a: "fst (client ReceiveMessage ?kw (backend w)) = Inr objects"
    using c r by simp
  have l: "calls w' = calls w @ ?entries"
    using g(6) r by (simp add: w1_def)
  have o: "stdout w' = stdout w @ map (\<lambda>(i, b). processing_line i b) (zip ids bodies)"
    using g(7) by (simp add: w1_def)
  note facts = a g(1,2,3) q requests_all_sent[OF q n] n l o
  show ?thesis
    apply (rule exI[of _ objects], rule exI[of _ ids], rule exI[of _ bodies])
    apply (rule exI[of _ receipts], rule exI[of _ ?entries])
    apply (intro conjI)
    apply (rule facts)+
    done
qed

text \<open>With the in-memory service and a queue that holds two messages: both are printed
  and deleted, and the queue is empty afterwards.\<close>

theorem process_queue_deletes_every_received_message_witness:
  "fst (process_queue mem_service Q two_messages) = Inr ()
   \<and> (\<exists>objects ids bodies receipts entries.
           fst (mem_service ReceiveMessage
                  [(''QueueUrl'', Q), (''MaxNumberOfMessages'', PInt 10)] (backend two_messages))
             = Inr objects
         \<and> map (\<lambda>message. subscript message ''MessageId'') (polled objects) = map Inr ids
         \<and> map (\<lambda>message. subscript message ''Body'') (polled objects) = map Inr bodies
         \<and> map (\<lambda>message. subscript message ''ReceiptHandle'') (polled objects)
             = map Inr receipts
         \<and> requests mem_service
             ((ReceiveMessage, [(''QueueUrl'', Q), (''MaxNumberOfMessages'', PInt 10)])
              # map (\<lambda>receipt.
                       (DeleteMessage, [(''QueueUrl'', Q), (''ReceiptHandle'', receipt)]))
                  receipts)
             (backend two_messages)
             = (entries, backend (snd (process_queue mem_service Q two_messages)))
         \<and> map (\<lambda>entry. (fst entry, fst (snd entry))) entries =
             (ReceiveMessage, [(''QueueUrl'', Q), (''MaxNumberOfMessages'', PInt 10)])
              # map (\<lambda>receipt.
                       (DeleteMessage, [(''QueueUrl'', Q), (''ReceiptHandle'', receipt)]))
                  receipts
         \<and> refusal entries = None
         \<and> calls (snd (process_queue mem_service Q two_messages))
             = calls two_messages @ entries
         \<and> stdout (snd (process_queue mem_service Q two_messages)) =
             stdout two_messages @ map (\<lambda>(message_id, body). processing_line message_id body)
                          (zip ids bodies))
   \<and> map (\<lambda>entry. (fst entry, fst (snd entry)))
        (new_calls two_messages (snd (process_queue mem_service Q two_messages)))
       = [(ReceiveMessage, [(''QueueUrl'', Q), (''MaxNumberOfMessages'', PInt 10)]),
          (DeleteMessage, [(''QueueUrl'', Q), (''ReceiptHandle'', PStr (mk_receipt 2))]),
          (DeleteMessage, [(''QueueUrl'', Q), (''ReceiptHandle'', PStr (mk_receipt 3))])]
   \<and> stdout (snd (process_queue mem_service Q two_messages))
       = [''Processing message: m; body: hello'', ''Processing message: mi; body: world'']
   \<and> map q_msgs (m_queues (backend (snd (process_queue mem_service Q two_messages)))) = [[]]"
proof -
  have r: "fst (process_queue mem_service Q two_messages) = Inr ()"
    by code_simp
  note t = process_queue_deletes_every_received_message[where client = mem_service
      and w = two_messages, OF pair_of_fst[OF r]]
  have c: "map (\<lambda>entry. (fst entry, fst (snd entry)))
        (new_calls two_messages (snd (process_queue mem_service Q two_messages)))
       = [(ReceiveMessage, [(''QueueUrl'', Q), (''MaxNumberOfMessages'', PInt 10)]),
          (DeleteMessage, [(''QueueUrl'', Q), (''ReceiptHandle'', PStr (mk_receipt 2))]),
          (DeleteMessage, [(''QueueUrl'', Q), (''ReceiptHandle'', PStr (mk_receipt 3))])]"
    by code_simp
  have o: "stdout (snd (process_queue mem_service Q two_messages))
       = [''Processing message: m; body: hello'', ''Processing message: mi; body: world'']"
    by code_simp
  have q: "map q_msgs (m_queues (backend (snd (process_queue mem_service Q two_messages))))
             = [[]]"
    by code_simp
  show ?thesis
    apply (intro conjI)
    apply (rule r)
    apply (rule t)
    apply (rule c)
    apply (rule o)
    apply (rule q)
    done
qed

text \<open>A drain that deletes only what a processing function of the caller accepted deletes
  nothing when that function always fails; \<^verbatim>\<open>process_queue\<close>, on the same queue, deletes
  the message it received.\<close>

theorem deleted_though_processing_fails_counterexample:
  "deleted_receipts (calls (snd (drainOnce_spec always_fails mem_service Q (PInt 10) one_message)))
     = []
   \<and> deleted_receipts (calls (snd (process_queue mem_service Q one_message)))
     = [PStr (mk_receipt 1)]"
proof
  show "deleted_receipts
          (calls (snd (drainOnce_spec always_fails mem_service Q (PInt 10) one_message))) = []"
    by code_simp
  show "deleted_receipts (calls (snd (process_queue mem_service Q one_message)))
     = [PStr (mk_receipt 1)]"
    by code_simp
qed

section \<open>Attaching a redrive policy\<close>

text \<open>
  Claim C2, as amended. The maximal receive count is not an argument and no error of the
  script's own is raised for it: it is always 3. Looking up the ARN of the target and then
  creating the queue fails in exactly four cases, each time with the exception raised
  there: the lookup is refused (the exception of the resource); its answer has no
  \<^verbatim>\<open>QueueArn\<close> (\<^verbatim>\<open>KeyError\<close>); the ARN found cannot be written by \<^verbatim>\<open>json.dumps\<close>
  (\<^verbatim>\<open>TypeError\<close>); the \<^verbatim>\<open>create_queue\<close> request is refused (the exception of the
  client). In the first three cases the lookup is the only request made. In every other case
  the second and last request asks for the policy made of the ARN found and the count 3,
  and the outcome is the client's answer to it.
\<close>

theorem create_with_redrive_outcome:
  assumes "resource GetQueueByName [(''QueueName'', target)] (backend w) = (looked_up, s1)"
  shows "create_with_redrive client resource name target w =
     (let looked = (GetQueueByName, [(''QueueName'', target)], looked_up);
          w1 = w\<lparr>backend := s1, calls := calls w @ [looked]\<rparr>;
          request = (\<lambda>arn.
            [(''QueueName'', if name = PNone then PStr ''main_queue'' else name),
             (''Attributes'', PDict
                [(''DelaySeconds'', PStr ''0''),
                 (''MaximumMessageSize'', PStr ''262144''),
                 (''VisibilityTimeout'', PStr ''30''),
                 (''MessageRetentionPeriod'', PStr ''345680''),
                 (''ReceiveMessageWaitTimeSeconds'', PStr ''0''),
                 (''RedrivePolicy'', PStr (json_text
                    (PDict [(''deadLetterTargetArn'', arn), (''maxReceiveCount'', PInt 3)])))])])
      in case looked_up of
           Inl e \<Rightarrow> (Inl e, w1)
         | Inr attributes \<Rightarrow>
             (case map_of attributes ''QueueArn'' of
                None \<Rightarrow> (Inl (KeyError ''QueueArn''), w1)
              | Some arn \<Rightarrow>
                  if serialisable arn
                  then (fst (client CreateQueue (request arn) s1),
                        w\<lparr>backend := snd (client CreateQueue (request arn) s1),
                          calls := calls w @
                            [looked,
                             (CreateQueue, request arn,
                              fst (client CreateQueue (request arn) s1))]\<rparr>)
                  else (Inl TypeError, w1)))"
proof (cases looked_up)
  case (Inl e)
  with assms show ?thesis
    by (simp add: create_with_redrive_def get_queue_arn_def and_then_def call_def)
next
  case (Inr attributes)
  show ?thesis
  proof (cases "map_of attributes ''QueueArn''")
    case None
    with Inr assms show ?thesis
      by (simp add: create_with_redrive_def get_queue_arn_def and_then_def call_def returns_def)
  next
    case (Some arn)
    with Inr assms show ?thesis
      by (simp add: create_with_redrive_def get_queue_arn_def and_then_def call_def returns_def
          sqs_create_queue_dead_dependency_def json_dumps_def redrive_policy_def name_or_def
          QUEUE_MAIN_def Let_def split: prod.splits)
  qed
qed

text \<open>With the in-memory service, where the queue \<^verbatim>\<open>dead\<close> exists and the queue \<^verbatim>\<open>main\<close>
  was deleted a moment ago: the lookup is accepted, and the exception is the one with which
  the service refuses the \<^verbatim>\<open>create_queue\<close> request.\<close>

theorem create_with_redrive_outcome_witness:
  "mem_service GetQueueByName [(''QueueName'', PStr ''dead'')] (backend main_just_deleted)
     = (Inr [(''QueueArn'', PStr (arn_of ''dead''))], backend main_just_deleted)
   \<and> fst (create_with_redrive mem_service mem_service (PStr ''main'') (PStr ''dead'')
            main_just_deleted) = Inl (BotoError ''QueueDeletedRecently'')
   \<and> map fst (new_calls main_just_deleted
        (snd (create_with_redrive mem_service mem_service (PStr ''main'') (PStr ''dead'')
                main_just_deleted))) = [GetQueueByName, CreateQueue]"
proof -
  let ?request = "\<lambda>arn.
            [(''QueueName'', if PStr ''main'' = PNone then PStr ''main_queue'' else PStr ''main''),
             (''Attributes'', PDict
                [(''DelaySeconds'', PStr ''0''),
                 (''MaximumMessageSize'', PStr ''262144''),
                 (''VisibilityTimeout'', PStr ''30''),
                 (''MessageRetentionPeriod'', PStr ''345680''),
                 (''ReceiveMessageWaitTimeSeconds'', PStr ''0''),
                 (''RedrivePolicy'', PStr (json_text
                    (PDict [(''deadLetterTargetArn'', arn), (''maxReceiveCount'', PInt 3)])))])]"
  define A where "A = fst (mem_service CreateQueue (?request (PStr (arn_of ''dead'')))
                             (backend main_just_deleted))"
  define S where "S = snd (mem_service CreateQueue (?request (PStr (arn_of ''dead'')))
                             (backend main_just_deleted))"
  have g: "mem_service GetQueueByName [(''QueueName'', PStr ''dead'')] (backend main_just_deleted)
     = (Inr [(''QueueArn'', PStr (arn_of ''dead''))], backend main_just_deleted)"
    by code_simp
  have a: "A = Inl (BotoError ''QueueDeletedRecently'')"
    unfolding A_def by code_simp
  note t = create_with_redrive_outcome[where resource = mem_service and w = main_just_deleted
      and client = mem_service and name = "PStr ''main''", OF g]
  have e: "create_with_redrive mem_service mem_service (PStr ''main'') (PStr ''dead'')
             main_just_deleted =
           (A, main_just_deleted\<lparr>backend := S,
                 calls := calls main_just_deleted @
                   [(GetQueueByName, [(''QueueName'', PStr ''dead'')],
                     Inr [(''QueueArn'', PStr (arn_of ''dead''))]),
                    (CreateQueue, ?request (PStr (arn_of ''dead'')), A)]\<rparr>)"
    unfolding t A_def S_def by (simp add: Let_def)
  have e1: "fst (create_with_redrive mem_service mem_service (PStr ''main'') (PStr ''dead'')
            main_just_deleted) = Inl (BotoError ''QueueDeletedRecently'')"
    by (simp only: e fst_conv a)
  have e2: "map fst (new_calls main_just_deleted
        (snd (create_with_redrive mem_service mem_service (PStr ''main'') (PStr ''dead'')
                main_just_deleted))) = [GetQueueByName, CreateQueue]"
    by (simp only: e snd_conv) (simp add: new_calls_def)
  from g e1 e2 show ?thesis
    by blast
qed

text \<open>So, with the in-memory service: the target resolves, the count in the policy is 3,
  and attaching still fails, because the service refuses to create a queue under a name that
  was deleted a moment ago.\<close>

theorem refused_though_target_resolves_counterexample:
  "fst (get_queue_arn mem_service (PStr ''dead'') main_just_deleted) = Inr (PStr (arn_of ''dead''))
   \<and> fst (create_with_redrive mem_service mem_service (PStr ''main'') (PStr ''dead'')
            main_just_deleted) = Inl (BotoError ''QueueDeletedRecently'')
   \<and> requested_policy (last (calls (snd
        (create_with_redrive mem_service mem_service (PStr ''main'') (PStr ''dead'')
            main_just_deleted))))
       = Some (PStr (json_text
           (PDict [(''deadLetterTargetArn'', PStr (arn_of ''dead'')),
                   (''maxReceiveCount'', PInt 3)])))"
proof (intro conjI)
  show "fst (get_queue_arn mem_service (PStr ''dead'') main_just_deleted)
          = Inr (PStr (arn_of ''dead''))"
    by code_simp
  show "fst (create_with_redrive mem_service mem_service (PStr ''main'') (PStr ''dead'')
            main_just_deleted) = Inl (BotoError ''QueueDeletedRecently'')"
    by code_simp
  show "requested_policy (last (calls (snd
        (create_with_redrive mem_service mem_service (PStr ''main'') (PStr ''dead'')
            main_just_deleted))))
       = Some (PStr (json_text
           (PDict [(''deadLetterTargetArn'', PStr (arn_of ''dead'')),
                   (''maxReceiveCount'', PInt 3)])))"
    by code_simp
qed

section \<open>The order of the script's requests\<close>

lemma and_then_cases:
  assumes "and_then p f w = (r, w')"
  obtains (raised) e where "p w = (Inl e, w')" "r = Inl e"
        | (went_on) x w1 where "p w = (Inr x, w1)" "f x w1 = (r, w')"
  using assms by (auto simp: and_then_def split: sum.splits prod.splits)

lemma note_url_log: "note_url response w = (r, w') \<Longrightarrow> calls w' = calls w"
  by (auto simp: note_url_def and_then_def returns_def print_def print_json_def
      queue_urls_add_def split: sum.splits prod.splits if_splits)

lemma no_policy_append: "no_policy (xs @ ys) \<longleftrightarrow> no_policy xs \<and> no_policy ys"
  by (simp add: no_policy_def)

lemma sqs_create_queue_log:
  "sqs_create_queue client name w = (r, w') \<Longrightarrow>
   calls w' = calls w @ [(CreateQueue, [(''QueueName'', name_or QUEUE_NAME name)], r)]"
  by (auto simp: sqs_create_queue_def call_unfold)

lemma sqs_create_fifo_queue_log:
  "sqs_create_fifo_queue client name w = (r, w') \<Longrightarrow>
   \<exists>request. calls w' = calls w @ [request] \<and> requested_policy request = None"
  by (auto simp: sqs_create_fifo_queue_def call_unfold requested_policy_def)

lemma create_plain_queues_log:
  assumes "create_plain_queues client w = (r, w')"
  shows "\<exists>new. calls w' = calls w @ new \<and> no_policy new"
  using assms unfolding create_plain_queues_def
  by (auto elim!: and_then_cases dest!: note_url_log sqs_create_queue_log
      sqs_create_fifo_queue_log
      simp: returns_def no_policy_def requested_policy_def)

lemma create_with_redrive_log:
  assumes "create_with_redrive client resource name target w = (r, w')"
  shows "(\<exists>new. calls w' = calls w @ new \<and> no_policy new)
       \<or> (\<exists>attributes arn request.
            calls w' = calls w @ [(GetQueueByName, [(''QueueName'', target)], Inr attributes),
                                  request]
          \<and> map_of attributes ''QueueArn'' = Some arn
          \<and> requested_policy request = Some (PStr (json_text
               (PDict [(''deadLetterTargetArn'', arn), (''maxReceiveCount'', PInt 3)]))))"
proof -
  obtain looked_up s1 where
    g: "resource GetQueueByName [(''QueueName'', target)] (backend w) = (looked_up, s1)"
    by (cases "resource GetQueueByName [(''QueueName'', target)] (backend w)")
  show ?thesis
  proof (cases looked_up)
    case (Inl e)
    with g assms have "calls w' = calls w @ [(GetQueueByName, [(''QueueName'', target)], Inl e)]"
      by (auto simp: create_with_redrive_def get_queue_arn_def and_then_def call_def)
    then show ?thesis by (simp add: no_policy_def requested_policy_def)
  next
    case (Inr attributes)
    show ?thesis
    proof (cases "map_of attributes ''QueueArn''")
      case None
      with Inr g assms
      have "calls w' = calls w @ [(GetQueueByName, [(''QueueName'', target)], Inr attributes)]"
        by (auto simp: create_with_redrive_def get_queue_arn_def and_then_def call_def
            returns_def)
      then show ?thesis by (simp add: no_policy_def requested_policy_def)
    next
      case (Some arn)
      show ?thesis
      proof (cases "serialisable arn")
        case False
        with Some Inr g assms
        have "calls w' = calls w @ [(GetQueueByName, [(''QueueName'', target)], Inr attributes)]"
          by (auto simp: create_with_redrive_def get_queue_arn_def and_then_def call_def
              returns_def sqs_create_queue_dead_dependency_def json_dumps_def)
        then show ?thesis by (simp add: no_policy_def requested_policy_def)
      next
        case True
        define request where "request = last (calls w')"
        from True Some Inr g assms
        have "calls w' = calls w @ [(GetQueueByName, [(''QueueName'', target)], Inr attributes),
                                    request]
            \<and> requested_policy request = Some (PStr (json_text
                 (PDict [(''deadLetterTargetArn'', arn), (''maxReceiveCount'', PInt 3)])))"
          unfolding request_def
          by (auto simp: create_with_redrive_def get_queue_arn_def and_then_def call_def
              returns_def sqs_create_queue_dead_dependency_def json_dumps_def
              redrive_policy_def requested_policy_def split: prod.splits)
        with Some True show ?thesis by blast
      qed
    qed
  qed
qed

lemma create_dead_letter_log:
  assumes "create_dead_letter client resource w = (r, w')"
  shows "(\<exists>new. calls w' = calls w @ new \<and> no_policy new)
       \<or> (\<exists>made attributes arn request.
            calls w' = calls w @
              [(CreateQueue, [(''QueueName'', PStr QUEUE_NAME_DEAD)], Inr made),
               (GetQueueByName, [(''QueueName'', PStr QUEUE_NAME_DEAD)], Inr attributes),
               request]
          \<and> map_of attributes ''QueueArn'' = Some arn
          \<and> requested_policy request = Some (PStr (json_text
               (PDict [(''deadLetterTargetArn'', arn), (''maxReceiveCount'', PInt 3)]))))"
  using assms unfolding create_dead_letter_def
proof (cases rule: and_then_cases)
  case (raised e)
  from sqs_create_queue_log[OF raised(1)] show ?thesis
    by (simp add: no_policy_def requested_policy_def)
next
  case (went_on made w1)
  note c1 = sqs_create_queue_log[OF went_on(1)]
  from went_on(2) show ?thesis
  proof (cases rule: and_then_cases)
    case (raised e)
    from note_url_log[OF raised(1)] c1 show ?thesis
      by (simp add: no_policy_def requested_policy_def)
  next
    case (went_on noted w2)
    note c2 = note_url_log[OF went_on(1)]
    from went_on(2) have "\<exists>r3 w3. create_with_redrive client resource (PStr QUEUE_MAIN)
             (PStr QUEUE_NAME_DEAD) w2 = (r3, w3) \<and> calls w' = calls w3"
      by (auto elim!: and_then_cases dest!: note_url_log simp: returns_def)
    then obtain r3 w3 where
      c3: "create_with_redrive client resource (PStr QUEUE_MAIN)
             (PStr QUEUE_NAME_DEAD) w2 = (r3, w3)" and c4: "calls w' = calls w3"
      by blast
    from create_with_redrive_log[OF c3] show ?thesis
    proof
      assume "\<exists>new. calls w3 = calls w2 @ new \<and> no_policy new"
      with c1 c2 c4 show ?thesis
        by (auto simp: no_policy_def requested_policy_def name_or_def)
    next
      assume "\<exists>attributes arn request.
            calls w3 = calls w2 @
              [(GetQueueByName, [(''QueueName'', PStr QUEUE_NAME_DEAD)], Inr attributes), request]
          \<and> map_of attributes ''QueueArn'' = Some arn
          \<and> requested_policy request = Some (PStr (json_text
               (PDict [(''deadLetterTargetArn'', arn), (''maxReceiveCount'', PInt 3)])))"
      with c1 c2 c4 show ?thesis
        by (auto simp: name_or_def)
    qed
  qed
qed

lemma process_message_no_policy:
  "process_message client url m w = (r, w') \<Longrightarrow>
   \<exists>new. calls w' = calls w @ new \<and> no_policy new"
  by (auto simp: process_message_def and_then_def returns_def print_def
      delete_message_from_queue_def call_unfold no_policy_def requested_policy_def
      split: sum.splits prod.splits)

lemma process_messages_no_policy:
  "process_messages client url ms w = (r, w') \<Longrightarrow>
   \<exists>new. calls w' = calls w @ new \<and> no_policy new"
proof (induction ms arbitrary: w)
  case Nil
  then show ?case by (simp add: no_policy_def)
next
  case (Cons m ms)
  obtain r1 w1 where p: "process_message client url m w = (r1, w1)"
    by (cases "process_message client url m w")
  from process_message_no_policy[OF p] obtain n1 where
    n1: "calls w1 = calls w @ n1" "no_policy n1" by blast
  show ?case
  proof (cases r1)
    case (Inl e)
    with p Cons.prems n1 show ?thesis by auto
  next
    case (Inr u)
    with p Cons.prems have "process_messages client url ms w1 = (r, w')" by simp
    from Cons.IH[OF this] n1 show ?thesis by (auto simp: no_policy_append)
  qed
qed

lemma process_queue_no_policy:
  assumes "process_queue client url w = (r, w')"
  shows "\<exists>new. calls w' = calls w @ new \<and> no_policy new"
proof -
  obtain r1 w1 where
    c: "poll_queue client url (PInt 10) w = (r1, w1)"
    by (cases "poll_queue client url (PInt 10) w")
  then have l: "\<exists>request. calls w1 = calls w @ [request] \<and> requested_policy request = None"
    by (auto simp: poll_queue_def call_unfold requested_policy_def)
  have "w' = w1 \<or> (\<exists>ms. process_messages client url ms w1 = (r, w'))"
    using assms c
    by (auto simp: process_queue_def and_then_def returns_def
        split: option.splits sum.splits if_splits)
  then show ?thesis
  proof
    assume "w' = w1"
    with l show ?thesis by (auto simp: no_policy_def)
  next
    assume "\<exists>ms. process_messages client url ms w1 = (r, w')"
    then obtain ms where "process_messages client url ms w1 = (r, w')" by blast
    from process_messages_no_policy[OF this] l show ?thesis
      by (auto simp: no_policy_def)
  qed
qed

lemma send_message_to_queue_no_policy:
  "send_message_to_queue client url msg w = (r, w') \<Longrightarrow>
   \<exists>new. calls w' = calls w @ new \<and> no_policy new"
  by (auto simp: send_message_to_queue_def call_unfold no_policy_def requested_policy_def
      split: if_splits)

lemma send_batch_messages_no_policy:
  "send_batch_messages client url msgs w = (r, w') \<Longrightarrow>
   \<exists>new. calls w' = calls w @ new \<and> no_policy new"
  by (auto simp: send_batch_messages_def call_unfold no_policy_def requested_policy_def)

lemma print_json_log: "print_json v w = (r, w') \<Longrightarrow> calls w' = calls w"
  by (auto simp: print_json_def print_def and_then_def returns_def split: sum.splits)

lemma send_and_process_no_policy:
  assumes "send_and_process today uuid client url w = (r, w')"
  shows "\<exists>new. calls w' = calls w @ new \<and> no_policy new"
  using assms unfolding send_and_process_def
  by (elim and_then_cases)
     (auto dest!: send_message_to_queue_no_policy send_batch_messages_no_policy
        process_queue_no_policy print_json_log simp: no_policy_append)

lemma main_log:
  assumes "main today uuid client resource w = (r, w')"
  shows "\<exists>first middle rest.
           calls w' = calls w @ first @ middle @ rest \<and> no_policy first \<and> no_policy rest
         \<and> (no_policy middle
            \<or> (\<exists>made attributes arn request.
                 middle =
                   [(CreateQueue, [(''QueueName'', PStr QUEUE_NAME_DEAD)], Inr made),
                    (GetQueueByName, [(''QueueName'', PStr QUEUE_NAME_DEAD)], Inr attributes),
                    request]
               \<and> map_of attributes ''QueueArn'' = Some arn
               \<and> requested_policy request = Some (PStr (json_text
                    (PDict [(''deadLetterTargetArn'', arn), (''maxReceiveCount'', PInt 3)])))))"
proof -
  have start: "new_queue_urls w = (Inr (), w\<lparr>queue_urls := []\<rparr>)"
    by (simp add: new_queue_urls_def)
  define w0 where "w0 = w\<lparr>queue_urls := []\<rparr>"
  have w0: "calls w0 = calls w" by (simp add: w0_def)
  from assms start have
    run: "and_then (create_plain_queues client) (\<lambda>QUEUE_URL_REG.
          and_then (create_dead_letter client resource) (\<lambda>_.
            send_and_process today uuid client QUEUE_URL_REG)) w0 = (r, w')"
    by (simp add: main_def and_then_def w0_def)
  from run show ?thesis
  proof (cases rule: and_then_cases)
    case (raised e)
    from create_plain_queues_log[OF raised(1)] w0 obtain first where
      "calls w' = calls w @ first" "no_policy first" by auto
    then have "calls w' = calls w @ first @ [] @ [] \<and> no_policy first \<and> no_policy []
        \<and> no_policy []"
      by (simp add: no_policy_def)
    then show ?thesis by blast
  next
    case (went_on url w1)
    from create_plain_queues_log[OF went_on(1)] w0 obtain first where
      f: "calls w1 = calls w @ first" "no_policy first" by auto
    from went_on(2) have
      "\<exists>r2 w2 rest. create_dead_letter client resource w1 = (r2, w2)
         \<and> calls w' = calls w2 @ rest \<and> no_policy rest"
    proof (cases rule: and_then_cases)
      case (raised e)
      then have "create_dead_letter client resource w1 = (Inl e, w')
         \<and> calls w' = calls w' @ [] \<and> no_policy []"
        by (simp add: no_policy_def)
      then show ?thesis by blast
    next
      case (went_on u2 w2)
      from send_and_process_no_policy[OF went_on(2)] went_on(1) show ?thesis by blast
    qed
  then obtain r2 w2 rest where
    d: "create_dead_letter client resource w1 = (r2, w2)"
    and t: "calls w' = calls w2 @ rest" "no_policy rest"
    by blast
  from create_dead_letter_log[OF d] show ?thesis
  proof
    assume "\<exists>new. calls w2 = calls w1 @ new \<and> no_policy new"
    then obtain middle where "calls w2 = calls w1 @ middle" "no_policy middle" by blast
    with f t have "calls w' = calls w @ first @ middle @ rest \<and> no_policy first
        \<and> no_policy rest \<and> no_policy middle"
      by simp
    then show ?thesis by blast
  next
    assume "\<exists>made attributes arn request.
            calls w2 = calls w1 @
              [(CreateQueue, [(''QueueName'', PStr QUEUE_NAME_DEAD)], Inr made),
               (GetQueueByName, [(''QueueName'', PStr QUEUE_NAME_DEAD)], Inr attributes),
               request]
          \<and> map_of attributes ''QueueArn'' = Some arn
          \<and> requested_policy request = Some (PStr (json_text
               (PDict [(''deadLetterTargetArn'', arn), (''maxReceiveCount'', PInt 3)])))"
    then obtain made attributes arn request where
      m: "calls w2 = calls w1 @
              [(CreateQueue, [(''QueueName'', PStr QUEUE_NAME_DEAD)], Inr made),
               (GetQueueByName, [(''QueueName'', PStr QUEUE_NAME_DEAD)], Inr attributes),
               request]"
         "map_of attributes ''QueueArn'' = Some arn"
         "requested_policy request = Some (PStr (json_text
               (PDict [(''deadLetterTargetArn'', arn), (''maxReceiveCount'', PInt 3)])))"
      by blast
    let ?middle = "[(CreateQueue, [(''QueueName'', PStr QUEUE_NAME_DEAD)], Inr made),
               (GetQueueByName, [(''QueueName'', PStr QUEUE_NAME_DEAD)], Inr attributes),
               request]"
    from f t m(1) have "calls w' = calls w @ first @ ?middle @ rest" by simp
    with f(2) t(2) m(2,3) show ?thesis by blast
  qed
  qed
qed

text \<open>
  Claim C7, as amended. In a run of the script's main part, whenever a queue is created with
  a redrive policy, the two requests sent just before it are the creation of the dead-letter
  queue and the lookup of that queue by its name, both accepted, and the target ARN of the
  policy is the ARN the lookup returned: there the dead-letter queue is created first and
  its name is resolved before the policy of the dependent queue is built. The order is that
  of the main part; \<^verbatim>\<open>sqs_create_queue_dead_dependency\<close> takes the ARN as an argument and
  looks nothing up.
\<close>

theorem redrive_target_is_resolved_first:
  assumes "main today uuid client resource w = (r, w')"
    and "request \<in> set (new_calls w w')"
    and "requested_policy request = Some policy"
  shows "\<exists>before made attributes arn rest.
           new_calls w w' = before @
             [(CreateQueue, [(''QueueName'', PStr ''example_dead_queue'')], Inr made),
              (GetQueueByName, [(''QueueName'', PStr ''example_dead_queue'')], Inr attributes),
              request] @ rest
         \<and> map_of attributes ''QueueArn'' = Some arn
         \<and> policy = PStr (json_text
              (PDict [(''deadLetterTargetArn'', arn), (''maxReceiveCount'', PInt 3)]))"
proof -
  from main_log[OF assms(1)] obtain first middle rest where
    l: "calls w' = calls w @ first @ middle @ rest" "no_policy first" "no_policy rest"
    and m: "no_policy middle
            \<or> (\<exists>made attributes arn request.
                 middle =
                   [(CreateQueue, [(''QueueName'', PStr QUEUE_NAME_DEAD)], Inr made),
                    (GetQueueByName, [(''QueueName'', PStr QUEUE_NAME_DEAD)], Inr attributes),
                    request]
               \<and> map_of attributes ''QueueArn'' = Some arn
               \<and> requested_policy request = Some (PStr (json_text
                    (PDict [(''deadLetterTargetArn'', arn), (''maxReceiveCount'', PInt 3)]))))"
    by blast
  from l(1) have n: "new_calls w w' = first @ middle @ rest"
    by (simp add: new_calls_def)
  have in_middle: "request \<in> set middle"
    using assms(2,3) l(2,3) unfolding n
    by (auto simp: no_policy_def list_all_iff)
  with assms(3) have "\<not> no_policy middle"
    by (auto simp: no_policy_def list_all_iff)
  with m obtain made attributes arn request' where
    k: "middle =
          [(CreateQueue, [(''QueueName'', PStr QUEUE_NAME_DEAD)], Inr made),
           (GetQueueByName, [(''QueueName'', PStr QUEUE_NAME_DEAD)], Inr attributes),
           request']"
       "map_of attributes ''QueueArn'' = Some arn"
       "requested_policy request' = Some (PStr (json_text
            (PDict [(''deadLetterTargetArn'', arn), (''maxReceiveCount'', PInt 3)])))"
    by blast
  from in_middle assms(3) have same: "request' = request"
    unfolding k(1) by (auto simp: requested_policy_def)
  from n k(1) same
  have "new_calls w w' = first @
          [(CreateQueue, [(''QueueName'', PStr ''example_dead_queue'')], Inr made),
           (GetQueueByName, [(''QueueName'', PStr ''example_dead_queue'')], Inr attributes),
           request] @ rest"
    by (simp add: QUEUE_NAME_DEAD_def)
  moreover from k(3) same assms(3)
  have "policy = PStr (json_text
              (PDict [(''deadLetterTargetArn'', arn), (''maxReceiveCount'', PInt 3)]))"
    by simp
  ultimately show ?thesis using k(2) by blast
qed

text \<open>With the in-memory service: the fifth request of the run is the creation of
  \<^verbatim>\<open>main_queue\<close> with its policy.\<close>

theorem redrive_target_is_resolved_first_witness:
  "fst (main ''today'' demo_uuid mem_service mem_service start) = Inr ()
   \<and> calls after_main ! 4 \<in> set (new_calls start after_main)
   \<and> requested_policy (calls after_main ! 4)
       = Some (PStr (json_text (PDict [(''deadLetterTargetArn'',
                                         PStr ''arn:aws:sqs:example_dead_queue''),
                                       (''maxReceiveCount'', PInt 3)])))
   \<and> (\<exists>before made attributes arn rest.
           new_calls start after_main = before @
             [(CreateQueue, [(''QueueName'', PStr ''example_dead_queue'')], Inr made),
              (GetQueueByName, [(''QueueName'', PStr ''example_dead_queue'')], Inr attributes),
              calls after_main ! 4] @ rest
         \<and> map_of attributes ''QueueArn'' = Some arn
         \<and> PStr (json_text (PDict [(''deadLetterTargetArn'',
                                      PStr ''arn:aws:sqs:example_dead_queue''),
                                    (''maxReceiveCount'', PInt 3)]))
             = PStr (json_text
                 (PDict [(''deadLetterTargetArn'', arn), (''maxReceiveCount'', PInt 3)])))"
proof -
  have r: "fst (main ''today'' demo_uuid mem_service mem_service start) = Inr ()"
    by code_simp
  have e: "main ''today'' demo_uuid mem_service mem_service start = (Inr (), after_main)"
    using pair_of_fst[OF r] by (simp add: after_main_def)
  have i: "calls after_main ! 4 \<in> set (new_calls start after_main)"
    by code_simp
  have p: "requested_policy (calls after_main ! 4)
       = Some (PStr (json_text (PDict [(''deadLetterTargetArn'',
                                         PStr ''arn:aws:sqs:example_dead_queue''),
                                       (''maxReceiveCount'', PInt 3)])))"
    by code_simp
  note t = redrive_target_is_resolved_first[OF e i p]
  show ?thesis
    apply (intro conjI)
    apply (rule r)
    apply (rule i)
    apply (rule p)
    apply (rule t)
    done
qed

text \<open>The function by itself, with the in-memory service in which only the queue
  \<^verbatim>\<open>dead\<close> exists, given an ARN of no queue: its one request, the first of the run, is
  accepted, and the queue \<^verbatim>\<open>main\<close> has a policy whose target no queue has and no lookup
  has returned.\<close>

theorem policy_with_unresolved_target_counterexample:
  "fst (sqs_create_queue_dead_dependency mem_service (PStr (arn_of ''nowhere'')) (PStr ''main'')
          start) = Inr [(''QueueUrl'', PStr (url_of ''main''))]
   \<and> map fst (calls (snd
        (sqs_create_queue_dead_dependency mem_service (PStr (arn_of ''nowhere''))
           (PStr ''main'') start))) = [CreateQueue]
   \<and> requested_policy (last (calls (snd
        (sqs_create_queue_dead_dependency mem_service (PStr (arn_of ''nowhere''))
           (PStr ''main'') start))))
       = Some (PStr (json_text (PDict [(''deadLetterTargetArn'', PStr (arn_of ''nowhere'')),
                                       (''maxReceiveCount'', PInt 3)])))
   \<and> map q_name (m_queues (backend (snd
        (sqs_create_queue_dead_dependency mem_service (PStr (arn_of ''nowhere''))
           (PStr ''main'') start)))) = [''main'']
   \<and> fst (get_queue_arn mem_service (PStr ''nowhere'')
        (snd (sqs_create_queue_dead_dependency mem_service (PStr (arn_of ''nowhere''))
           (PStr ''main'') start))) = Inl (BotoError ''NonExistentQueue'')"
proof (intro conjI)
  show "fst (sqs_create_queue_dead_dependency mem_service (PStr (arn_of ''nowhere''))
          (PStr ''main'') start) = Inr [(''QueueUrl'', PStr (url_of ''main''))]"
    by code_simp
  show "map fst (calls (snd
        (sqs_create_queue_dead_dependency mem_service (PStr (arn_of ''nowhere''))
           (PStr ''main'') start))) = [CreateQueue]"
    by code_simp
  show "requested_policy (last (calls (snd
        (sqs_create_queue_dead_dependency mem_service (PStr (arn_of ''nowhere''))
           (PStr ''main'') start))))
       = Some (PStr (json_text (PDict [(''deadLetterTargetArn'', PStr (arn_of ''nowhere'')),
                                       (''maxReceiveCount'', PInt 3)])))"
    by code_simp
  show "map q_name (m_queues (backend (snd
        (sqs_create_queue_dead_dependency mem_service (PStr (arn_of ''nowhere''))
           (PStr ''main'') start)))) = [''main'']"
    by code_simp
  show "fst (get_queue_arn mem_service (PStr ''nowhere'')
        (snd (sqs_create_queue_dead_dependency mem_service (PStr (arn_of ''nowhere''))
           (PStr ''main'') start))) = Inl (BotoError ''NonExistentQueue'')"
    by code_simp
qed

section \<open>Operations that fail\<close>














section \<open>The round trip of a message\<close>

text \<open>
  Claim C8, as amended. The module keeps no record of messages. Each of the three functions
  of the round trip makes one request of the client with the arguments it was given and its
  outcome is the client's answer, on the state the client has left:
  \<^verbatim>\<open>send_message_to_queue\<close> sends the URL and the fields of the message (and raises
  \<^verbatim>\<open>TypeError\<close>, sending nothing, when the message has a field \<^verbatim>\<open>QueueUrl\<close> of its
  own), \<^verbatim>\<open>poll_queue\<close> the URL and the number of messages asked for, and the deletion
  nested in \<^verbatim>\<open>process_queue\<close> the URL and the receipt. Whether a message that was sent,
  received and deleted is handed out again is the service's answer to a later
  \<^verbatim>\<open>receive_message\<close> request.
\<close>

theorem round_trip_is_three_requests:
  "(''QueueUrl'' \<notin> fst ` set msg
    \<and> client SendMessage ((''QueueUrl'', url) # msg) (backend w) = (sent, s1) \<longrightarrow>
      send_message_to_queue client url msg w =
        (sent, w\<lparr>backend := s1,
                 calls := calls w @ [(SendMessage, (''QueueUrl'', url) # msg, sent)]\<rparr>))
   \<and> (''QueueUrl'' \<in> fst ` set msg \<longrightarrow>
      send_message_to_queue client url msg w = (Inl TypeError, w))
   \<and> (client ReceiveMessage [(''QueueUrl'', url), (''MaxNumberOfMessages'', max_messages)]
         (backend w) = (polled_answer, s2) \<longrightarrow>
      poll_queue client url max_messages w =
        (polled_answer,
         w\<lparr>backend := s2,
           calls := calls w @
             [(ReceiveMessage, [(''QueueUrl'', url), (''MaxNumberOfMessages'', max_messages)],
               polled_answer)]\<rparr>))
   \<and> (client DeleteMessage [(''QueueUrl'', url), (''ReceiptHandle'', receipt)] (backend w)
         = (deleted, s3) \<longrightarrow>
      delete_message_from_queue client url receipt w =
        (deleted,
         w\<lparr>backend := s3,
           calls := calls w @
             [(DeleteMessage, [(''QueueUrl'', url), (''ReceiptHandle'', receipt)],
               deleted)]\<rparr>))"
  by (simp add: send_message_to_queue_def poll_queue_def delete_message_from_queue_def
      call_def)

text \<open>With the in-memory service: a message is sent to the queue \<^verbatim>\<open>q\<close>, received and
  deleted under the receipt of that delivery; a message with a \<^verbatim>\<open>QueueUrl\<close> of its own is
  not sent.\<close>

theorem round_trip_is_three_requests_witness:
  "''QueueUrl'' \<notin> fst ` set [(''MessageBody'', PStr ''hello'')]
   \<and> fst (send_message_to_queue mem_service Q [(''MessageBody'', PStr ''hello'')] one_queue)
       = Inr [(''MessageId'', PStr (mk_id 0))]
   \<and> backend (snd (send_message_to_queue mem_service Q [(''MessageBody'', PStr ''hello'')]
                     one_queue)) = backend one_message
   \<and> ''QueueUrl'' \<in> fst ` set [(''QueueUrl'', Q), (''MessageBody'', PStr ''hello'')]
   \<and> send_message_to_queue mem_service Q [(''QueueUrl'', Q), (''MessageBody'', PStr ''hello'')]
        one_queue = (Inl TypeError, one_queue)
   \<and> fst (poll_queue mem_service Q (PInt 10) one_message)
       = Inr [(''Messages'', PList [PDict [(''MessageId'', PStr (mk_id 0)),
                (''ReceiptHandle'', PStr (mk_receipt 1)), (''Body'', PStr ''hello'')]])]
   \<and> backend (snd (poll_queue mem_service Q (PInt 10) one_message)) = backend received
   \<and> fst (delete_message_from_queue mem_service Q (PStr (mk_receipt 1)) received) = Inr []
   \<and> map q_msgs (m_queues (backend (snd
        (delete_message_from_queue mem_service Q (PStr (mk_receipt 1)) received)))) = [[]]"
proof -
  let ?msg = "[(''MessageBody'', PStr ''hello'')]"
  let ?bad = "[(''QueueUrl'', Q), (''MessageBody'', PStr ''hello'')]"
  let ?got = "Inr [(''Messages'', PList [PDict [(''MessageId'', PStr (mk_id 0)),
                (''ReceiptHandle'', PStr (mk_receipt 1)), (''Body'', PStr ''hello'')]])]"
  define S3 where "S3 = snd (mem_service DeleteMessage
      [(''QueueUrl'', Q), (''ReceiptHandle'', PStr (mk_receipt 1))] (backend received))"
  have n: "''QueueUrl'' \<notin> fst ` set ?msg" by simp
  have b: "''QueueUrl'' \<in> fst ` set ?bad" by simp
  have s: "mem_service SendMessage ((''QueueUrl'', Q) # ?msg) (backend one_queue)
             = (Inr [(''MessageId'', PStr (mk_id 0))], backend one_message)"
    by code_simp
  have p: "mem_service ReceiveMessage [(''QueueUrl'', Q), (''MaxNumberOfMessages'', PInt 10)]
             (backend one_message) = (?got, backend received)"
    by code_simp
  have d: "mem_service DeleteMessage [(''QueueUrl'', Q), (''ReceiptHandle'', PStr (mk_receipt 1))]
             (backend received) = (Inr [], S3)"
    unfolding S3_def by code_simp
  have e: "map q_msgs (m_queues S3) = [[]]"
    unfolding S3_def by code_simp
  note t1 = round_trip_is_three_requests[where client = mem_service and url = Q
      and msg = ?msg and w = one_queue and sent = "Inr [(''MessageId'', PStr (mk_id 0))]"
      and ?s1.0 = "backend one_message"]
  note t2 = round_trip_is_three_requests[where client = mem_service and url = Q
      and msg = ?bad and w = one_queue]
  note t3 = round_trip_is_three_requests[where client = mem_service and url = Q
      and msg = ?msg and w = one_message and max_messages = "PInt 10"
      and polled_answer = ?got and ?s2.0 = "backend received"]
  note t4 = round_trip_is_three_requests[where client = mem_service and url = Q
      and msg = ?msg and w = received and receipt = "PStr (mk_receipt 1)"
      and deleted = "Inr []" and ?s3.0 = S3]
  from t1 n s have a1: "send_message_to_queue mem_service Q ?msg one_queue =
        (Inr [(''MessageId'', PStr (mk_id 0))],
         one_queue\<lparr>backend := backend one_message,
           calls := calls one_queue @
             [(SendMessage, (''QueueUrl'', Q) # ?msg, Inr [(''MessageId'', PStr (mk_id 0))])]\<rparr>)"
    by blast
  from t2 b have a2: "send_message_to_queue mem_service Q ?bad one_queue
                        = (Inl TypeError, one_queue)"
    by blast
  from t3 p have a3: "poll_queue mem_service Q (PInt 10) one_message =
        (?got,
         one_message\<lparr>backend := backend received,
           calls := calls one_message @
             [(ReceiveMessage, [(''QueueUrl'', Q), (''MaxNumberOfMessages'', PInt 10)],
               ?got)]\<rparr>)"
    by blast
  from t4 d have a4: "delete_message_from_queue mem_service Q (PStr (mk_receipt 1)) received =
        (Inr [],
         received\<lparr>backend := S3,
           calls := calls received @
             [(DeleteMessage, [(''QueueUrl'', Q), (''ReceiptHandle'', PStr (mk_receipt 1))],
               Inr [])]\<rparr>)"
    by blast
  have c1: "fst (send_message_to_queue mem_service Q ?msg one_queue)
              = Inr [(''MessageId'', PStr (mk_id 0))]"
    by (simp only: a1 fst_conv)
  have c2: "backend (snd (send_message_to_queue mem_service Q ?msg one_queue))
              = backend one_message"
    by (simp only: a1 snd_conv) simp
  have c3: "fst (poll_queue mem_service Q (PInt 10) one_message) = ?got"
    by (simp only: a3 fst_conv)
  have c4: "backend (snd (poll_queue mem_service Q (PInt 10) one_message)) = backend received"
    by (simp only: a3 snd_conv) simp
  have c5: "fst (delete_message_from_queue mem_service Q (PStr (mk_receipt 1)) received)
              = Inr []"
    by (simp only: a4 fst_conv)
  have c6: "map q_msgs (m_queues (backend (snd
        (delete_message_from_queue mem_service Q (PStr (mk_receipt 1)) received)))) = [[]]"
    by (simp only: a4 snd_conv) (simp add: e)
  from n c1 c2 b a2 c3 c4 c5 c6 show ?thesis
    by blast
qed

text \<open>With the service that keeps a copy of a deleted message: the message is sent to
  the queue \<^verbatim>\<open>q\<close>, received, and deleted under the receipt of that delivery, each request
  accepted; 31 seconds later a poll of the same queue returns the message again.\<close>

theorem received_again_after_delete_counterexample:
  "fst (send_message_to_queue copy_keeping_service Q [(''MessageBody'', PStr ''hello'')]
          one_queue) = Inr [(''MessageId'', PStr (mk_id 0))]
   \<and> fst (poll_queue copy_keeping_service Q (PInt 10)
        (snd (send_message_to_queue copy_keeping_service Q [(''MessageBody'', PStr ''hello'')]
                one_queue)))
       = Inr [(''Messages'', PList [PDict [(''MessageId'', PStr (mk_id 0)),
                (''ReceiptHandle'', PStr (mk_receipt 1)), (''Body'', PStr ''hello'')]])]
   \<and> fst (delete_message_from_queue copy_keeping_service Q (PStr (mk_receipt 1))
        (snd (poll_queue copy_keeping_service Q (PInt 10)
        (snd (send_message_to_queue copy_keeping_service Q [(''MessageBody'', PStr ''hello'')]
                one_queue))))) = Inr []
   \<and> fst (poll_queue copy_keeping_service Q (PInt 10)
        (later 31
        (snd (delete_message_from_queue copy_keeping_service Q (PStr (mk_receipt 1))
        (snd (poll_queue copy_keeping_service Q (PInt 10)
        (snd (send_message_to_queue copy_keeping_service Q [(''MessageBody'', PStr ''hello'')]
                one_queue))))))))
       = Inr [(''Messages'', PList [PDict [(''MessageId'', PStr (mk_id 0)),
                (''ReceiptHandle'', PStr (mk_receipt 2)), (''Body'', PStr ''hello'')]])]"
proof (intro conjI)
  show "fst (send_message_to_queue copy_keeping_service Q [(''MessageBody'', PStr ''hello'')]
          one_queue) = Inr [(''MessageId'', PStr (mk_id 0))]"
    by code_simp
  show "fst (poll_queue copy_keeping_service Q (PInt 10)
        (snd (send_message_to_queue copy_keeping_service Q [(''MessageBody'', PStr ''hello'')]
                one_queue)))
       = Inr [(''Messages'', PList [PDict [(''MessageId'', PStr (mk_id 0)),
                (''ReceiptHandle'', PStr (mk_receipt 1)), (''Body'', PStr ''hello'')]])]"
    by code_simp
  show "fst (delete_message_from_queue copy_keeping_service Q (PStr (mk_receipt 1))
        (snd (poll_queue copy_keeping_service Q (PInt 10)
        (snd (send_message_to_queue copy_keeping_service Q [(''MessageBody'', PStr ''hello'')]
                one_queue))))) = Inr []"
    by code_simp
  show "fst (poll_queue copy_keeping_service Q (PInt 10)
        (later 31
        (snd (delete_message_from_queue copy_keeping_service Q (PStr (mk_receipt 1))
        (snd (poll_queue copy_keeping_service Q (PInt 10)
        (snd (send_message_to_queue copy_keeping_service Q [(''MessageBody'', PStr ''hello'')]
                one_queue))))))))
       = Inr [(''Messages'', PList [PDict [(''MessageId'', PStr (mk_id 0)),
                (''ReceiptHandle'', PStr (mk_receipt 2)), (''Body'', PStr ''hello'')]])]"
    by code_simp
qed

end
